theory Spec2Isabelle
  imports Complex_Main "HOL-Library.Word"
begin

chapter \<open>The learning-roadmap controller\<close>

text \<open>
  A model of \<^verbatim>\<open>frontend/static/script.js\<close>, the client-side controller of the
  learning-roadmap page: its module-level variables and the parts of the page it reads
  back are a record, each handler is a function on that record, and what the backend
  answers is an argument of the handler that waits for it. A handler is run to its end:
  the code after an \<^verbatim>\<open>await\<close> is applied at once to the answer, with no other handler in
  between. Numbers taken from the backend are integers and texts are strings, as the
  interface of the backend says.
\<close>

section \<open>JavaScript strings and the built-ins the controller uses\<close>

text \<open>
  A JavaScript string is a sequence of UTF-16 code units; \<open>length\<close>, \<open>includes\<close>,
  \<open>split\<close>, \<open>trim\<close> and the regular expressions of \<^verbatim>\<open>script.js\<close> all work on code
  units. String literals of the source are written with \<open>js\<close>.
\<close>

type_synonym jsstring = "16 word list"

definition js :: "string \<Rightarrow> jsstring" where
  "js s = map of_char s"

definition COLON :: "16 word" where "COLON = 0x3A"
definition STAR :: "16 word" where "STAR = 0x2A"
definition HASH :: "16 word" where "HASH = 0x23"
definition NL :: "16 word" where "NL = 0x0A"

text \<open>
  ECMAScript \<open>WhiteSpace\<close> and \<open>LineTerminator\<close>: what \<open>String.prototype.trim\<close> strips and
  what \<^verbatim>\<open>\s\<close> matches in a regular expression.
\<close>

definition isWhiteSpace :: "16 word \<Rightarrow> bool" where
  "isWhiteSpace u =
     (u = 0x0009 \<or> u = 0x000A \<or> u = 0x000B \<or> u = 0x000C \<or> u = 0x000D \<or> u = 0x0020 \<or>
      u = 0x00A0 \<or> u = 0x1680 \<or> (0x2000 \<le> u \<and> u \<le> 0x200A) \<or> u = 0x2028 \<or> u = 0x2029 \<or>
      u = 0x202F \<or> u = 0x205F \<or> u = 0x3000 \<or> u = 0xFEFF)"

definition js_trim :: "jsstring \<Rightarrow> jsstring" where
  "js_trim s = rev (dropWhile isWhiteSpace (rev (dropWhile isWhiteSpace s)))"

text \<open>
  \<^verbatim>\<open>s.split(sep)\<close> for a one-unit separator: the pieces between all occurrences of the
  separator, so that a string with \<open>n\<close> separators gives \<open>n + 1\<close> pieces and the empty
  string gives one empty piece.
\<close>

fun js_split :: "'a \<Rightarrow> 'a list \<Rightarrow> 'a list list" where
  "js_split sep [] = [[]]"
| "js_split sep (c # cs) =
     (if c = sep then [] # js_split sep cs
      else (case js_split sep cs of
              p # ps \<Rightarrow> (c # p) # ps
            | [] \<Rightarrow> [[c]]))"

text \<open>\<^verbatim>\<open>xs[i]\<close>: \<open>undefined\<close> (here \<open>None\<close>) outside the array.\<close>

definition js_index :: "'a list \<Rightarrow> int \<Rightarrow> 'a option" where
  "js_index xs i = (if 0 \<le> i \<and> i < int (length xs) then Some (xs ! nat i) else None)"

text \<open>\<^verbatim>\<open>a % b\<close> on integers: the remainder has the sign of the dividend.\<close>

definition js_rem :: "int \<Rightarrow> int \<Rightarrow> int" where
  "js_rem a b = sgn a * (\<bar>a\<bar> mod \<bar>b\<bar>)"

text \<open>\<^verbatim>\<open>x || fallback\<close> on an optional string: \<open>undefined\<close> and \<open>""\<close> are falsy.\<close>

definition js_or :: "jsstring option \<Rightarrow> jsstring \<Rightarrow> jsstring" where
  "js_or x fallback = (case x of None \<Rightarrow> fallback | Some v \<Rightarrow> if v = [] then fallback else v)"

text \<open>
  \<^verbatim>\<open>s.replace(/\n\s*\n/g, '\n')\<close>. A match starts at a line feed; the greedy \<^verbatim>\<open>\s*\<close>
  takes the whole run of white space that follows and backtracks to the last line feed
  of that run, so the match ends there. Without a line feed in the run there is no match
  at this position. The search resumes after the match; the replacement is not scanned
  again.
\<close>

definition blankMatchLength :: "jsstring \<Rightarrow> nat" where
  "blankMatchLength cs =
     (let run = takeWhile isWhiteSpace cs
      in length run - length (takeWhile (\<lambda>u. u \<noteq> NL) (rev run)))"

function replaceBlankLines :: "jsstring \<Rightarrow> jsstring" where
  "replaceBlankLines [] = []"
| "replaceBlankLines (c # cs) =
     (if c = NL \<and> NL \<in> set (takeWhile isWhiteSpace cs)
      then NL # replaceBlankLines (drop (blankMatchLength cs) cs)
      else c # replaceBlankLines cs)"
  by pat_completeness auto
termination
  by (relation "measure length") auto

section \<open>Data model\<close>

record step =
  number :: int
  title :: jsstring
  details :: "jsstring list"

record roadmap =
  topic :: jsstring
  steps :: "step list"
  persona :: jsstring
  difficulty :: jsstring

text \<open>A flashcard \<^verbatim>\<open>{front, back}\<close>.\<close>

record flashcard =
  cardFront :: jsstring
  cardBack :: jsstring

record question =
  question :: jsstring
  options :: "(jsstring \<times> jsstring) list"

record quiz_score =
  score :: int
  total :: int
  percentage :: rat

datatype role = User | Assistant

datatype screen = StartScreen | LearningScreen | Loading

datatype guide_view = GuideLoading | GuideText jsstring | GuideFailed | GuideError jsstring

subsection \<open>The backend\<close>

text \<open>
  Every \<^verbatim>\<open>fetch\<close> is recorded in the state's request log. What comes back is an argument
  of the handler that awaits it: the promise is rejected (network failure, or a body that
  is not JSON) with an error message, or it resolves to the JSON object, whose \<open>success\<close>
  flag picks the constructor.
\<close>

datatype request =
    GetStats
  | PostStartTopic jsstring jsstring jsstring
  | PostGetGuide
  | GetNote
  | PostGetResources jsstring jsstring
  | PostNextStep
  | PostSaveNote jsstring
  | PostChat jsstring
  | PostClearChat
  | PostGenerateQuiz
  | PostSubmitQuiz "(nat \<times> jsstring) list" "question list option"

datatype 'a outcome = Rejected jsstring | Resolved 'a

datatype start_topic_json = StartTopicOk jsstring "step list" | StartTopicFail "jsstring option"

datatype next_step_json = NextStepOk bool int | NextStepFail

datatype guide_json = GuideOk jsstring | GuideFail

datatype note_json = NoteOk "jsstring option" | NoteFail

datatype chat_json = ChatOk jsstring | ChatFail

datatype clear_chat_json = ClearChatOk | ClearChatFail jsstring

datatype save_note_json = SaveNoteOk | SaveNoteFail

datatype generate_quiz_json = GenerateQuizOk "question list" | GenerateQuizFail "jsstring option"

datatype submit_quiz_json = SubmitQuizOk quiz_score | SubmitQuizFail

text \<open>The two requests every refresh of the learning screen awaits.\<close>

record panels =
  guideResponse :: "guide_json outcome"
  noteResponse :: "note_json outcome"

subsection \<open>The controller's state\<close>

text \<open>
  The six module-level variables of \<^verbatim>\<open>script.js\<close>, the parts of the page its handlers
  read back or that the session, flashcard, quiz and chat logic writes, the \<^verbatim>\<open>alert\<close>
  notifications shown so far and the requests sent so far. Purely presentational writes
  (badge, title and detail texts, progress bar, tags, button labels and disabled flags,
  the statistics and resources panels, scrolling, animations) are not part of the state.
\<close>

record state =
  currentStepIndex :: int
  totalSteps :: int
  roadmapData :: "roadmap option"
  currentQuiz :: "question list option"
  currentFlashcards :: "flashcard list"
  currentFlashcardIndex :: int
  activeScreen :: screen
  topicInput :: jsstring
  personaSelect :: jsstring
  difficultySelect :: jsstring
  completionModalHidden :: bool
  guideContent :: guide_view
  notesTextarea :: jsstring
  chatMessages :: "(role \<times> jsstring) list"
  chatInput :: jsstring
  quizContent :: "question list option"
  quizSelected :: "(nat \<times> jsstring) list"
  quizResultsContent :: "(bool \<times> quiz_score) option"
  quizResultsModalHidden :: bool
  flashcardFlipped :: bool
  flashcardFront :: jsstring
  flashcardBack :: jsstring
  flashcardCount :: "int \<times> int"
  roadmapMinimap :: "jsstring list"
  alerts :: "jsstring list"
  requests :: "request list"

datatype js_error = TypeError

text \<open>The message of the \<open>TypeError\<close> for reading a property of \<open>undefined\<close> (V8's wording).\<close>

definition errorMessage :: "js_error \<Rightarrow> jsstring" where
  "errorMessage e = js ''Cannot read properties of undefined (reading 'number')''"

definition alert :: "jsstring \<Rightarrow> state \<Rightarrow> state" where
  "alert msg s = s\<lparr>alerts := alerts s @ [msg]\<rparr>"

definition fetch :: "request \<Rightarrow> state \<Rightarrow> state" where
  "fetch r s = s\<lparr>requests := requests s @ [r]\<rparr>"

section \<open>Screens and modals\<close>

definition showScreen :: "screen \<Rightarrow> state \<Rightarrow> state" where
  "showScreen screenId s = s\<lparr>activeScreen := screenId\<rparr>"

definition showLoading :: "state \<Rightarrow> state" where
  "showLoading s = s\<lparr>activeScreen := Loading\<rparr>"

definition showCompletionModal :: "state \<Rightarrow> state" where
  "showCompletionModal s = s\<lparr>completionModalHidden := False\<rparr>"

definition loadStats :: "state \<Rightarrow> state" where
  "loadStats s = fetch GetStats s"

section \<open>Flashcards\<close>

text \<open>
  The body of the \<^verbatim>\<open>forEach\<close> in \<open>generateFlashcards\<close>, for one detail line.
  \<^verbatim>\<open>const [term, definition] = detail.split(':')\<close> binds the first two pieces of the
  split. With fewer than two pieces \<open>definition\<close> would be \<open>undefined\<close>; a line that
  includes a colon always has two (\<open>js_split_first_two\<close> below), so that branch is dead.
\<close>

definition pushFlashcard :: "flashcard list \<Rightarrow> jsstring \<Rightarrow> flashcard list" where
  "pushFlashcard cards detail =
     (if COLON \<in> set detail then
        (case js_split COLON detail of
           term # definition # _ \<Rightarrow>
             cards @ [\<lparr>cardFront = js_trim term, cardBack = js_trim definition\<rparr>]
         | _ \<Rightarrow> cards)
      else if length detail > 20 then
        cards @ [\<lparr>cardFront = js ''Key Concept'', cardBack = js_trim detail\<rparr>]
      else cards)"

definition extractFlashcards :: "jsstring list \<Rightarrow> flashcard list" where
  "extractFlashcards ds = foldl pushFlashcard [] ds"

text \<open>
  \<open>displayFlashcard\<close> reads \<^verbatim>\<open>currentFlashcards[currentFlashcardIndex]\<close>. Outside the
  list the card is \<open>undefined\<close> and \<^verbatim>\<open>card.front\<close> throws: the handler stops there, with
  the card already turned face up and the texts as they were.
\<close>

definition displayFlashcard :: "state \<Rightarrow> state" where
  "displayFlashcard s =
     (let s1 = s\<lparr>flashcardFlipped := False\<rparr>
      in if length (currentFlashcards s1) = 0 then
           s1\<lparr>flashcardFront := js ''No flashcards for this step yet.'',
              flashcardBack := [],
              flashcardCount := (0, 0)\<rparr>
         else
           (case js_index (currentFlashcards s1) (currentFlashcardIndex s1) of
              None \<Rightarrow> s1
            | Some c \<Rightarrow>
                s1\<lparr>flashcardFront := cardFront c,
                   flashcardBack := cardBack c,
                   flashcardCount :=
                     (currentFlashcardIndex s1 + 1, int (length (currentFlashcards s1)))\<rparr>))"

definition generateFlashcards :: "state \<Rightarrow> state" where
  "generateFlashcards s =
     (case roadmapData s of
        None \<Rightarrow> s
      | Some r \<Rightarrow>
          (case js_index (steps r) (currentStepIndex s) of
             None \<Rightarrow> s
           | Some step \<Rightarrow>
               displayFlashcard
                 (s\<lparr>currentFlashcards := extractFlashcards (details step),
                    currentFlashcardIndex := 0\<rparr>)))"

definition nextFlashcard :: "state \<Rightarrow> state" where
  "nextFlashcard s =
     (if length (currentFlashcards s) = 0 then s
      else displayFlashcard
             (s\<lparr>currentFlashcardIndex :=
                  js_rem (currentFlashcardIndex s + 1) (int (length (currentFlashcards s)))\<rparr>))"

definition previousFlashcard :: "state \<Rightarrow> state" where
  "previousFlashcard s =
     (if length (currentFlashcards s) = 0 then s
      else displayFlashcard
             (s\<lparr>currentFlashcardIndex :=
                  js_rem (currentFlashcardIndex s - 1 + int (length (currentFlashcards s)))
                         (int (length (currentFlashcards s)))\<rparr>))"

section \<open>The learning screen\<close>

definition loadGuide :: "guide_json outcome \<Rightarrow> state \<Rightarrow> state" where
  "loadGuide resp s =
     (let s1 = fetch PostGetGuide (s\<lparr>guideContent := GuideLoading\<rparr>)
      in case resp of
           Resolved (GuideOk guide) \<Rightarrow> s1\<lparr>guideContent := GuideText guide\<rparr>
         | Resolved GuideFail \<Rightarrow> s1\<lparr>guideContent := GuideFailed\<rparr>
         | Rejected msg \<Rightarrow> s1\<lparr>guideContent := GuideError msg\<rparr>)"

definition loadNote :: "note_json outcome \<Rightarrow> state \<Rightarrow> state" where
  "loadNote resp s =
     (let s1 = fetch GetNote s
      in case resp of
           Resolved (NoteOk note) \<Rightarrow> s1\<lparr>notesTextarea := js_or note []\<rparr>
         | Resolved NoteFail \<Rightarrow> s1\<lparr>notesTextarea := []\<rparr>
         | Rejected msg \<Rightarrow> s1)"

text \<open>
  The minimap gets one item per step; the item at position \<open>index\<close> carries the click
  handler that jumps to \<open>index\<close> (\<open>jumpToStep\<close> below).
\<close>

definition updateRoadmapMinimap :: "state \<Rightarrow> state" where
  "updateRoadmapMinimap s =
     (case roadmapData s of
        None \<Rightarrow> s
      | Some r \<Rightarrow> s\<lparr>roadmapMinimap := map title (steps r)\<rparr>)"

text \<open>
  \<open>fetchRelatedResources\<close> is started and not awaited; it sends its request at once and
  later writes the resources panel only. Its read of
  \<^verbatim>\<open>roadmapData.steps[currentStepIndex].title\<close> throws outside the list, before the
  request; the rejected promise is dropped.
\<close>

definition fetchRelatedResources :: "state \<Rightarrow> state" where
  "fetchRelatedResources s =
     (case roadmapData s of
        None \<Rightarrow> s
      | Some r \<Rightarrow>
          (case js_index (steps r) (currentStepIndex s) of
             None \<Rightarrow> s
           | Some step \<Rightarrow> fetch (PostGetResources (topic r) (title step)) s))"

definition updateRightSidebar :: "state \<Rightarrow> state" where
  "updateRightSidebar s = fetchRelatedResources (generateFlashcards (updateRoadmapMinimap s))"

text \<open>
  \<open>updateLearningScreen\<close> returns early without a roadmap or with the cursor at or past
  \<open>totalSteps\<close>. Otherwise it reads \<^verbatim>\<open>roadmapData.steps[currentStepIndex]\<close>; for a cursor
  outside the list (a negative one) the step is \<open>undefined\<close> and \<^verbatim>\<open>step.number\<close> throws
  before anything is written: the promise is rejected, \<open>Inl\<close>.
\<close>

definition updateLearningScreen :: "panels \<Rightarrow> state \<Rightarrow> js_error + state" where
  "updateLearningScreen p s =
     (case roadmapData s of
        None \<Rightarrow> Inr s
      | Some r \<Rightarrow>
          if currentStepIndex s \<ge> totalSteps s then Inr s
          else (case js_index (steps r) (currentStepIndex s) of
                  None \<Rightarrow> Inl TypeError
                | Some step \<Rightarrow>
                    Inr ((updateRightSidebar
                            (loadNote (noteResponse p) (loadGuide (guideResponse p) s)))
                         \<lparr>chatMessages := []\<rparr>)))"

section \<open>Session operations\<close>

text \<open>\<open>startLearning\<close>: the spec's \<open>startSession\<close>.\<close>

definition startLearning :: "start_topic_json outcome \<Rightarrow> panels \<Rightarrow> state \<Rightarrow> state" where
  "startLearning resp p s =
     (let topic' = js_trim (topicInput s);
          persona' = personaSelect s;
          difficulty' = difficultySelect s
      in if topic' = [] then s
         else
           (let s1 = fetch (PostStartTopic topic' persona' difficulty') (showLoading s)
            in case resp of
                 Rejected msg \<Rightarrow> showScreen StartScreen (alert (js ''Error: '' @ msg) s1)
               | Resolved (StartTopicFail err) \<Rightarrow>
                   showScreen StartScreen
                     (alert (js ''Error: '' @ js_or err (js ''Failed to generate roadmap'')) s1)
               | Resolved (StartTopicOk data_topic data_steps) \<Rightarrow>
                   (let s2 = showScreen LearningScreen
                               (s1\<lparr>roadmapData :=
                                      Some \<lparr>topic = data_topic, steps = data_steps,
                                            persona = persona', difficulty = difficulty'\<rparr>,
                                    totalSteps := int (length data_steps),
                                    currentStepIndex := 0\<rparr>)
                    in case updateLearningScreen p s2 of
                         Inr s3 \<Rightarrow> s3
                       | Inl e \<Rightarrow>
                           showScreen StartScreen
                             (alert (js ''Error: '' @ errorMessage e) s2))))"

text \<open>\<open>nextStep\<close>: the spec's \<open>advanceStep\<close>.\<close>

definition nextStep :: "next_step_json outcome \<Rightarrow> panels \<Rightarrow> state \<Rightarrow> state" where
  "nextStep resp p s =
     (if currentStepIndex s \<ge> totalSteps s - 1 then showCompletionModal s
      else
        (let s1 = fetch PostNextStep s
         in case resp of
              Rejected msg \<Rightarrow> alert (js ''Error: '' @ msg) s1
            | Resolved NextStepFail \<Rightarrow> s1
            | Resolved (NextStepOk data_completed data_currentStepIndex) \<Rightarrow>
                if data_completed then showCompletionModal s1
                else
                  (let s2 = s1\<lparr>currentStepIndex := data_currentStepIndex\<rparr>
                   in case updateLearningScreen p s2 of
                        Inr s3 \<Rightarrow> s3
                      | Inl e \<Rightarrow> alert (js ''Error: '' @ errorMessage e) s2)))"

text \<open>
  \<open>previousStep\<close> (the spec's \<open>retreatStep\<close>) and the minimap's click handler (the spec's
  \<open>jumpToStep\<close>) start \<open>updateLearningScreen\<close> without awaiting it: its rejection is
  dropped and the cursor stays as set.
\<close>

definition previousStep :: "panels \<Rightarrow> state \<Rightarrow> state" where
  "previousStep p s =
     (if currentStepIndex s = 0 then s
      else
        (let s1 = s\<lparr>currentStepIndex := currentStepIndex s - 1\<rparr>
         in case updateLearningScreen p s1 of Inr s2 \<Rightarrow> s2 | Inl e \<Rightarrow> s1))"

definition jumpToStep :: "nat \<Rightarrow> panels \<Rightarrow> state \<Rightarrow> state" where
  "jumpToStep index p s =
     (if index < length (roadmapMinimap s) then
        (let s1 = s\<lparr>currentStepIndex := int index\<rparr>
         in case updateLearningScreen p s1 of Inr s2 \<Rightarrow> s2 | Inl e \<Rightarrow> s1)
      else s)"

text \<open>\<open>resetToStart\<close>: the spec's \<open>resetSession\<close>.\<close>

definition resetToStart :: "state \<Rightarrow> state" where
  "resetToStart s =
     loadStats
       ((showScreen StartScreen s)
          \<lparr>topicInput := [],
           currentStepIndex := 0,
           roadmapData := None,
           completionModalHidden := True,
           notesTextarea := [],
           chatMessages := [],
           quizContent := None,
           quizSelected := []\<rparr>)"

section \<open>Notes\<close>

definition saveNote :: "save_note_json outcome \<Rightarrow> state \<Rightarrow> state" where
  "saveNote resp s =
     (let content = js_trim (notesTextarea s)
      in if content = [] then s
         else
           (let s1 = fetch (PostSaveNote content) s
            in case resp of
                 Rejected msg \<Rightarrow> alert (js ''Error saving note: '' @ msg) s1
               | Resolved _ \<Rightarrow> s1))"

section \<open>Chat\<close>

text \<open>
  \<open>addChatMessage\<close> cleans the text it displays: \<^verbatim>\<open>replace(/[*#]/g, '')\<close>, then
  \<^verbatim>\<open>replace(/\n\s*\n/g, '\n')\<close>, then \<^verbatim>\<open>trim()\<close>.
\<close>

definition cleanedMessage :: "jsstring \<Rightarrow> jsstring" where
  "cleanedMessage message =
     js_trim (replaceBlankLines (filter (\<lambda>u. u \<noteq> STAR \<and> u \<noteq> HASH) message))"

definition addChatMessage :: "role \<Rightarrow> jsstring \<Rightarrow> state \<Rightarrow> state" where
  "addChatMessage r message s = s\<lparr>chatMessages := chatMessages s @ [(r, cleanedMessage message)]\<rparr>"

text \<open>
  \<open>sendChat\<close> up to its first \<^verbatim>\<open>await\<close>: the state in which the request leaves. \<open>None\<close>
  when the trimmed input is empty and the handler returns at once.
\<close>

definition sendChatRequest :: "state \<Rightarrow> (jsstring \<times> state) option" where
  "sendChatRequest s =
     (let message = js_trim (chatInput s)
      in if message = [] then None
         else Some (message, fetch (PostChat message)
                               ((addChatMessage User message s)\<lparr>chatInput := []\<rparr>)))"

definition sendChat :: "chat_json outcome \<Rightarrow> state \<Rightarrow> state" where
  "sendChat resp s =
     (case sendChatRequest s of
        None \<Rightarrow> s
      | Some (message, s1) \<Rightarrow>
          (case resp of
             Resolved (ChatOk data_response) \<Rightarrow> addChatMessage Assistant data_response s1
           | Resolved ChatFail \<Rightarrow>
               addChatMessage Assistant (js ''Sorry, I encountered an error. Please try again.'') s1
           | Rejected msg \<Rightarrow> addChatMessage Assistant (js ''Error: '' @ msg) s1))"

text \<open>\<open>clearChat\<close>; \<open>confirmed\<close> is the user's answer to the \<^verbatim>\<open>confirm\<close> dialog.\<close>

definition clearChat :: "bool \<Rightarrow> clear_chat_json outcome \<Rightarrow> state \<Rightarrow> state" where
  "clearChat confirmed resp s =
     (if confirmed then
        (let s1 = fetch PostClearChat s
         in case resp of
              Resolved ClearChatOk \<Rightarrow>
                addChatMessage Assistant (js ''Chat history cleared.'') (s1\<lparr>chatMessages := []\<rparr>)
            | Resolved (ClearChatFail err) \<Rightarrow>
                alert (js ''Error clearing chat history: '' @ err) s1
            | Rejected msg \<Rightarrow> s1)
      else s)"

section \<open>Quiz\<close>

definition displayQuiz :: "question list \<Rightarrow> state \<Rightarrow> state" where
  "displayQuiz questions s = s\<lparr>quizContent := Some questions, quizSelected := []\<rparr>"

text \<open>
  The click handler of a displayed option: the options of the same question lose
  \<open>selected\<close>, the clicked one gets it.
\<close>

definition selectQuizOption :: "nat \<Rightarrow> jsstring \<Rightarrow> state \<Rightarrow> state" where
  "selectQuizOption questionIndex answer s =
     (case quizContent s of
        None \<Rightarrow> s
      | Some questions \<Rightarrow>
          if questionIndex < length questions
             \<and> answer \<in> set (map fst (options (questions ! questionIndex)))
          then s\<lparr>quizSelected :=
                   filter (\<lambda>(q, a). q \<noteq> questionIndex) (quizSelected s) @ [(questionIndex, answer)]\<rparr>
          else s)"

definition generateQuiz :: "generate_quiz_json outcome \<Rightarrow> state \<Rightarrow> state" where
  "generateQuiz resp s =
     (let s1 = fetch PostGenerateQuiz s
      in case resp of
           Resolved (GenerateQuizOk data_questions) \<Rightarrow>
             displayQuiz data_questions (s1\<lparr>currentQuiz := Some data_questions\<rparr>)
         | Resolved (GenerateQuizFail err) \<Rightarrow>
             alert (js ''Error generating quiz: '' @ js_or err (js ''Unknown error'')) s1
         | Rejected msg \<Rightarrow> alert (js ''Error: '' @ msg) s1)"

definition displayQuizResults :: "quiz_score \<Rightarrow> state \<Rightarrow> state" where
  "displayQuizResults d s =
     s\<lparr>quizResultsContent := Some (percentage d \<ge> 70, d), quizResultsModalHidden := False\<rparr>"

definition submitQuiz :: "submit_quiz_json outcome \<Rightarrow> state \<Rightarrow> state" where
  "submitQuiz resp s =
     (let answers = quizSelected s;
          s1 = fetch (PostSubmitQuiz answers (currentQuiz s)) s
      in case resp of
           Resolved (SubmitQuizOk d) \<Rightarrow> displayQuizResults d s1
         | Resolved SubmitQuizFail \<Rightarrow> s1
         | Rejected msg \<Rightarrow> alert (js ''Error: '' @ msg) s1)"

section \<open>Sequences of cursor operations\<close>

text \<open>
  The three operations that move the cursor, each with what the backend answers while it
  runs, and their execution in sequence.
\<close>

datatype operation =
    RetreatStep panels
  | JumpToStep nat panels
  | AdvanceStep "next_step_json outcome" panels

fun perform :: "operation \<Rightarrow> state \<Rightarrow> state" where
  "perform (RetreatStep p) s = previousStep p s"
| "perform (JumpToStep index p) s = jumpToStep index p s"
| "perform (AdvanceStep resp p) s = nextStep resp p s"

fun run :: "operation list \<Rightarrow> state \<Rightarrow> state" where
  "run [] s = s"
| "run (op # ops) s = run ops (perform op s)"

text \<open>
  A session is loaded when a roadmap is present, \<open>totalSteps\<close> is the length of its step
  list and the minimap shows one item per step. The cursor is in range when it indexes a
  step of the roadmap.
\<close>

definition loaded :: "state \<Rightarrow> bool" where
  "loaded s =
     (case roadmapData s of
        None \<Rightarrow> False
      | Some r \<Rightarrow> totalSteps s = int (length (steps r)) \<and> roadmapMinimap s = map title (steps r))"

definition cursorInRange :: "state \<Rightarrow> bool" where
  "cursorInRange s =
     (case roadmapData s of
        None \<Rightarrow> False
      | Some r \<Rightarrow> 0 \<le> currentStepIndex s \<and> currentStepIndex s < int (length (steps r)))"

text \<open>
  What the invariant needs from the backend: an index adopted by \<open>nextStep\<close> (a successful
  answer that is not \<open>completed\<close>) lies in \<open>[0, n)\<close>.
\<close>

fun backendIndexInRange :: "int \<Rightarrow> operation \<Rightarrow> bool" where
  "backendIndexInRange n (AdvanceStep (Resolved (NextStepOk data_completed data_currentStepIndex)) p) =
     (data_completed \<or> (0 \<le> data_currentStepIndex \<and> data_currentStepIndex < n))"
| "backendIndexInRange n _ = True"

text \<open>
  Going back to the start screen, typing a topic and starting again.
\<close>

definition resetThenStart ::
  "jsstring \<Rightarrow> start_topic_json outcome \<Rightarrow> panels \<Rightarrow> state \<Rightarrow> state" where
  "resetThenStart typed resp p s = startLearning resp p ((resetToStart s)\<lparr>topicInput := typed\<rparr>)"

text \<open>
  The string has a match of \<^verbatim>\<open>/\n\s*\n/\<close>: a line feed whose following run of white
  space holds another line feed.
\<close>

fun hasBlankLine :: "jsstring \<Rightarrow> bool" where
  "hasBlankLine [] = False"
| "hasBlankLine (c # cs) = ((c = NL \<and> NL \<in> set (takeWhile isWhiteSpace cs)) \<or> hasBlankLine cs)"

text \<open>
  The part of the state that a refresh of the learning screen never writes.
\<close>

definition kept :: "state \<Rightarrow> int \<times> int \<times> roadmap option \<times> question list option \<times> question list option \<times> (nat \<times> jsstring) list \<times> jsstring list \<times> screen \<times> bool" where
  "kept s = (currentStepIndex s, totalSteps s, roadmapData s, currentQuiz s, quizContent s,
             quizSelected s, alerts s, activeScreen s, completionModalHidden s)"

section \<open>A sample session\<close>

text \<open>
  Three steps, the cursor on the first, two flashcards with the second one shown, a
  generated quiz with one answer selected, one chat message and a typed chat input.
\<close>

definition exampleSteps :: "step list" where
  "exampleSteps =
     [\<lparr>number = 1, title = js ''Basics'',
       details = [js ''Term: Definition'', js ''short'',
                  js ''A moderately long descriptive sentence.'']\<rparr>,
      \<lparr>number = 2, title = js ''Practice'', details = [js ''Ratio: 3:1'']\<rparr>,
      \<lparr>number = 3, title = js ''Review'', details = []\<rparr>]"

definition exampleQuiz :: "question list" where
  "exampleQuiz = [\<lparr>question = js ''Why?'', options = [(js ''A'', js ''yes''), (js ''B'', js ''no'')]\<rparr>]"

definition examplePanels :: panels where
  "examplePanels = \<lparr>guideResponse = Resolved (GuideOk (js ''Guide'')), noteResponse = Resolved NoteFail\<rparr>"

definition exampleState :: state where
  "exampleState =
     \<lparr>currentStepIndex = 0, totalSteps = 3,
      roadmapData = Some \<lparr>topic = js ''Chemistry'', steps = exampleSteps,
                          persona = js ''Teacher'', difficulty = js ''Beginner''\<rparr>,
      currentQuiz = Some exampleQuiz,
      currentFlashcards = [\<lparr>cardFront = js ''Term'', cardBack = js ''Definition''\<rparr>,
                           \<lparr>cardFront = js ''Key Concept'',
                            cardBack = js ''A moderately long descriptive sentence.''\<rparr>],
      currentFlashcardIndex = 1,
      activeScreen = LearningScreen, topicInput = js ''Chemistry'',
      personaSelect = js ''Teacher'', difficultySelect = js ''Beginner'',
      completionModalHidden = True, guideContent = GuideText (js ''Guide''),
      notesTextarea = [], chatMessages = [(User, js ''Hi'')], chatInput = js ''  What is a mole?  '',
      quizContent = Some exampleQuiz, quizSelected = [(0, js ''A'')],
      quizResultsContent = None, quizResultsModalHidden = True,
      flashcardFlipped = True, flashcardFront = js ''Key Concept'',
      flashcardBack = js ''A moderately long descriptive sentence.'', flashcardCount = (2, 2),
      roadmapMinimap = [js ''Basics'', js ''Practice'', js ''Review''],
      alerts = [], requests = []\<rparr>"

section \<open>What a refresh of the learning screen leaves alone\<close>

lemma loadGuide_kept: "kept (loadGuide r s) = kept s"
  by (simp add: kept_def loadGuide_def fetch_def Let_def split: outcome.splits guide_json.splits)

lemma loadNote_kept: "kept (loadNote r s) = kept s"
  by (simp add: kept_def loadNote_def fetch_def Let_def split: outcome.splits note_json.splits)

lemma displayFlashcard_kept: "kept (displayFlashcard s) = kept s"
  by (simp add: kept_def displayFlashcard_def Let_def split: option.splits)

lemma generateFlashcards_kept: "kept (generateFlashcards s) = kept s"
  by (simp add: generateFlashcards_def displayFlashcard_kept split: option.splits)
     (simp add: kept_def)

lemma updateRoadmapMinimap_kept: "kept (updateRoadmapMinimap s) = kept s"
  by (simp add: kept_def updateRoadmapMinimap_def split: option.splits)

lemma fetchRelatedResources_kept: "kept (fetchRelatedResources s) = kept s"
  by (simp add: kept_def fetchRelatedResources_def fetch_def split: option.splits)

lemma updateRightSidebar_kept: "kept (updateRightSidebar s) = kept s"
  by (simp add: updateRightSidebar_def fetchRelatedResources_kept generateFlashcards_kept
      updateRoadmapMinimap_kept)

lemma chatMessages_kept: "kept (s\<lparr>chatMessages := m\<rparr>) = kept s"
  by (simp add: kept_def)

lemma updateLearningScreen_kept: "updateLearningScreen p s = Inr s' \<Longrightarrow> kept s' = kept s"
  by (auto simp add: updateLearningScreen_def chatMessages_kept updateRightSidebar_kept
      loadNote_kept loadGuide_kept split: option.splits if_splits)

lemma kept_after_panels:
  "kept (loadNote n (loadGuide g s)) = kept s"
  by (simp add: loadNote_kept loadGuide_kept)

lemma kept_roadmapData: "kept a = kept b \<Longrightarrow> roadmapData a = roadmapData b"
  by (simp add: kept_def)

lemma kept_quiz: "kept a = kept b \<Longrightarrow> currentQuiz a = currentQuiz b \<and> quizContent a = quizContent b"
  by (simp add: kept_def)

lemma kept_cursor: "kept a = kept b \<Longrightarrow> currentStepIndex a = currentStepIndex b"
  by (simp add: kept_def)

lemma updateLearningScreen_refresh:
  assumes "roadmapData s = Some r" and "currentStepIndex s < totalSteps s"
    and "js_index (steps r) (currentStepIndex s) = Some st"
  shows "updateLearningScreen p s =
         Inr ((updateRightSidebar (loadNote (noteResponse p) (loadGuide (guideResponse p) s)))
              \<lparr>chatMessages := []\<rparr>)"
  using assms by (simp add: updateLearningScreen_def)

lemma displayFlashcard_minimap: "roadmapMinimap (displayFlashcard s) = roadmapMinimap s"
  by (simp add: displayFlashcard_def Let_def split: option.splits)

lemma generateFlashcards_minimap: "roadmapMinimap (generateFlashcards s) = roadmapMinimap s"
  by (simp add: generateFlashcards_def displayFlashcard_minimap split: option.splits)

lemma fetchRelatedResources_minimap: "roadmapMinimap (fetchRelatedResources s) = roadmapMinimap s"
  by (simp add: fetchRelatedResources_def fetch_def split: option.splits)

lemma updateRightSidebar_minimap:
  "roadmapData s = Some r \<Longrightarrow> roadmapMinimap (updateRightSidebar s) = map title (steps r)"
  by (simp add: updateRightSidebar_def fetchRelatedResources_minimap generateFlashcards_minimap
      updateRoadmapMinimap_def)

lemma updateLearningScreen_minimap:
  assumes "updateLearningScreen p s = Inr s'" and "roadmapData s = Some r"
    and "roadmapMinimap s = map title (steps r)"
  shows "roadmapMinimap s' = map title (steps r)"
proof (cases "currentStepIndex s \<ge> totalSteps s")
  case True
  with assms show ?thesis by (simp add: updateLearningScreen_def)
next
  case False
  let ?s1 = "loadNote (noteResponse p) (loadGuide (guideResponse p) s)"
  have "roadmapData ?s1 = Some r"
    using assms(2) kept_roadmapData [of ?s1 s] by (simp add: loadNote_kept loadGuide_kept)
  then have "roadmapMinimap (updateRightSidebar ?s1) = map title (steps r)"
    by (rule updateRightSidebar_minimap)
  with assms False show ?thesis
    by (auto simp add: updateLearningScreen_def split: option.splits)
qed

section \<open>Flashcards\<close>

text \<open>
  A line that includes the separator splits into at least two pieces: the text before the
  first separator, and the text between the first and the second one (or up to the end).
  So the destructuring in \<open>pushFlashcard\<close> always finds its two pieces.
\<close>

lemma js_split_first_two:
  "sep \<in> set s \<Longrightarrow>
   \<exists>rest. js_split sep s
          = takeWhile (\<lambda>c. c \<noteq> sep) s
            # takeWhile (\<lambda>c. c \<noteq> sep) (tl (dropWhile (\<lambda>c. c \<noteq> sep) s)) # rest"
proof (induction s)
  case Nil
  then show ?case by simp
next
  case (Cons c cs)
  show ?case
  proof (cases "c = sep")
    case True
    have "\<exists>rest. js_split sep cs = takeWhile (\<lambda>c. c \<noteq> sep) cs # rest"
      by (induction cs) (auto split: list.splits)
    with True show ?thesis by auto
  next
    case False
    with Cons show ?thesis by auto
  qed
qed

text \<open>
  Claim C2. Flashcard extraction on the specification's example gives the two cards it
  names. On a line with two colons, \<^verbatim>\<open>"Ratio: 3:1"\<close>, the back of the card is the text
  between the first and the second colon, \<^verbatim>\<open>"3"\<close>, and not everything after the first
  colon, \<^verbatim>\<open>"3:1"\<close>: \<^verbatim>\<open>split(':')\<close> cuts at every colon and the destructuring keeps
  the first two pieces only.
\<close>

theorem flashcard_extraction_examples:
  "extractFlashcards [js ''Term: Definition'', js ''short'',
                      js ''A moderately long descriptive sentence.'']
     = [\<lparr>cardFront = js ''Term'', cardBack = js ''Definition''\<rparr>,
        \<lparr>cardFront = js ''Key Concept'',
         cardBack = js ''A moderately long descriptive sentence.''\<rparr>]
   \<and> extractFlashcards [js ''Ratio: 3:1''] = [\<lparr>cardFront = js ''Ratio'', cardBack = js ''3''\<rparr>]
   \<and> js ''3'' \<noteq> js ''3:1''"
  by (simp add: extractFlashcards_def pushFlashcard_def js_def js_trim_def isWhiteSpace_def
      COLON_def)

lemma js_rem_nonneg: "0 \<le> a \<Longrightarrow> 0 < b \<Longrightarrow> js_rem a b = a mod b"
  by (cases "a = 0") (simp_all add: js_rem_def)

lemma displayFlashcard_index:
  "currentFlashcardIndex (displayFlashcard s) = currentFlashcardIndex s
   \<and> currentFlashcards (displayFlashcard s) = currentFlashcards s
   \<and> flashcardFlipped (displayFlashcard s) = False"
  by (simp add: displayFlashcard_def Let_def split: option.splits)

lemma displayFlashcard_shown:
  "js_index (currentFlashcards s) (currentFlashcardIndex s) = Some c \<Longrightarrow>
   flashcardFront (displayFlashcard s) = cardFront c
   \<and> flashcardBack (displayFlashcard s) = cardBack c"
  by (auto simp add: displayFlashcard_def Let_def js_index_def split: option.splits if_splits)

lemma generateFlashcards_cards:
  assumes "roadmapData s = Some r" and "js_index (steps r) (currentStepIndex s) = Some st"
  shows "currentFlashcards (generateFlashcards s) = extractFlashcards (details st)
         \<and> currentFlashcardIndex (generateFlashcards s) = 0"
  using assms by (simp add: generateFlashcards_def displayFlashcard_index)

lemma fetchRelatedResources_cards:
  "currentFlashcards (fetchRelatedResources s) = currentFlashcards s
   \<and> currentFlashcardIndex (fetchRelatedResources s) = currentFlashcardIndex s"
  by (simp add: fetchRelatedResources_def fetch_def split: option.splits)

lemma updateRightSidebar_cards:
  assumes "roadmapData s = Some r" and "js_index (steps r) (currentStepIndex s) = Some st"
  shows "currentFlashcards (updateRightSidebar s) = extractFlashcards (details st)
         \<and> currentFlashcardIndex (updateRightSidebar s) = 0"
proof -
  let ?m = "updateRoadmapMinimap s"
  have "roadmapData ?m = Some r" and "currentStepIndex ?m = currentStepIndex s"
    using assms(1) by (simp_all add: updateRoadmapMinimap_def)
  with assms(2) have "currentFlashcards (generateFlashcards ?m) = extractFlashcards (details st)
         \<and> currentFlashcardIndex (generateFlashcards ?m) = 0"
    by (simp add: generateFlashcards_cards)
  then show ?thesis by (simp add: updateRightSidebar_def fetchRelatedResources_cards)
qed

text \<open>
  Claim C10. When \<open>generateFlashcards\<close> recomputes the cards of the current step, the
  pagination index is 0 and the card is face up, showing the first card if there is one.
  On a non-empty card list with the index in range, \<open>nextFlashcard\<close> and
  \<open>previousFlashcard\<close> keep the list and leave the index in range. On an empty list both
  return the state unchanged.
\<close>

theorem flashcard_index_invariant:
  "(roadmapData s = Some r \<and> js_index (steps r) (currentStepIndex s) = Some st \<longrightarrow>
      currentFlashcards (generateFlashcards s) = extractFlashcards (details st)
      \<and> currentFlashcardIndex (generateFlashcards s) = 0
      \<and> flashcardFlipped (generateFlashcards s) = False
      \<and> (extractFlashcards (details st) \<noteq> [] \<longrightarrow>
           flashcardFront (generateFlashcards s) = cardFront (hd (extractFlashcards (details st)))
           \<and> flashcardBack (generateFlashcards s) = cardBack (hd (extractFlashcards (details st)))))
   \<and> (currentFlashcards t \<noteq> [] \<and> 0 \<le> currentFlashcardIndex t
       \<and> currentFlashcardIndex t < int (length (currentFlashcards t)) \<longrightarrow>
         currentFlashcards (nextFlashcard t) = currentFlashcards t
         \<and> 0 \<le> currentFlashcardIndex (nextFlashcard t)
         \<and> currentFlashcardIndex (nextFlashcard t) < int (length (currentFlashcards t))
         \<and> currentFlashcards (previousFlashcard t) = currentFlashcards t
         \<and> 0 \<le> currentFlashcardIndex (previousFlashcard t)
         \<and> currentFlashcardIndex (previousFlashcard t) < int (length (currentFlashcards t)))
   \<and> (currentFlashcards u = [] \<longrightarrow> nextFlashcard u = u \<and> previousFlashcard u = u)"
proof (intro conjI impI)
  assume a: "roadmapData s = Some r \<and> js_index (steps r) (currentStepIndex s) = Some st"
  let ?s1 = "s\<lparr>currentFlashcards := extractFlashcards (details st), currentFlashcardIndex := 0\<rparr>"
  have g: "generateFlashcards s = displayFlashcard ?s1"
    using a by (simp add: generateFlashcards_def)
  show "currentFlashcards (generateFlashcards s) = extractFlashcards (details st)"
    and "currentFlashcardIndex (generateFlashcards s) = 0"
    and "flashcardFlipped (generateFlashcards s) = False"
    by (simp_all add: g displayFlashcard_index)
  assume ne: "extractFlashcards (details st) \<noteq> []"
  then have "js_index (currentFlashcards ?s1) (currentFlashcardIndex ?s1)
             = Some (hd (extractFlashcards (details st)))"
    by (simp add: js_index_def hd_conv_nth)
  from displayFlashcard_shown [OF this]
  show "flashcardFront (generateFlashcards s) = cardFront (hd (extractFlashcards (details st)))"
    and "flashcardBack (generateFlashcards s) = cardBack (hd (extractFlashcards (details st)))"
    by (simp_all add: g)
next
  assume b: "currentFlashcards t \<noteq> [] \<and> 0 \<le> currentFlashcardIndex t
       \<and> currentFlashcardIndex t < int (length (currentFlashcards t))"
  then have len: "0 < int (length (currentFlashcards t))" by simp
  have n: "currentFlashcardIndex (nextFlashcard t)
           = (currentFlashcardIndex t + 1) mod int (length (currentFlashcards t))"
    using b by (simp add: nextFlashcard_def displayFlashcard_index js_rem_nonneg)
  have p: "currentFlashcardIndex (previousFlashcard t)
           = (currentFlashcardIndex t - 1 + int (length (currentFlashcards t)))
               mod int (length (currentFlashcards t))"
    using b by (simp add: previousFlashcard_def displayFlashcard_index js_rem_nonneg)
  show "currentFlashcards (nextFlashcard t) = currentFlashcards t"
    and "currentFlashcards (previousFlashcard t) = currentFlashcards t"
    using b by (simp_all add: nextFlashcard_def previousFlashcard_def displayFlashcard_index)
  show "0 \<le> currentFlashcardIndex (nextFlashcard t)"
    and "currentFlashcardIndex (nextFlashcard t) < int (length (currentFlashcards t))"
    and "0 \<le> currentFlashcardIndex (previousFlashcard t)"
    and "currentFlashcardIndex (previousFlashcard t) < int (length (currentFlashcards t))"
    using len by (simp_all only: n p pos_mod_sign pos_mod_bound)
next
  assume "currentFlashcards u = []"
  then show "nextFlashcard u = u" and "previousFlashcard u = u"
    by (simp_all add: nextFlashcard_def previousFlashcard_def)
qed

text \<open>
  The sample session satisfies each hypothesis: a step under the cursor, two cards with
  the index on the second, and no cards once the list is emptied.
\<close>

theorem flashcard_index_invariant_witness:
  "js_index exampleSteps (currentStepIndex exampleState) = Some (hd exampleSteps)
   \<and> currentFlashcards exampleState \<noteq> []
   \<and> currentFlashcardIndex exampleState < int (length (currentFlashcards exampleState))
   \<and> currentFlashcardIndex (generateFlashcards exampleState) = 0
   \<and> flashcardFlipped (generateFlashcards exampleState) = False
   \<and> flashcardFront (generateFlashcards exampleState) = js ''Term''
   \<and> 0 \<le> currentFlashcardIndex (nextFlashcard exampleState)
   \<and> currentFlashcardIndex (nextFlashcard exampleState) < 2
   \<and> 0 \<le> currentFlashcardIndex (previousFlashcard exampleState)
   \<and> currentFlashcardIndex (previousFlashcard exampleState) < 2
   \<and> nextFlashcard (exampleState\<lparr>currentFlashcards := []\<rparr>)
       = exampleState\<lparr>currentFlashcards := []\<rparr>
   \<and> previousFlashcard (exampleState\<lparr>currentFlashcards := []\<rparr>)
       = exampleState\<lparr>currentFlashcards := []\<rparr>"
proof -
  have r: "roadmapData exampleState
           = Some \<lparr>topic = js ''Chemistry'', steps = exampleSteps,
                   persona = js ''Teacher'', difficulty = js ''Beginner''\<rparr>"
    and i: "js_index exampleSteps (currentStepIndex exampleState) = Some (hd exampleSteps)"
    and c: "currentFlashcards exampleState \<noteq> []" "0 \<le> currentFlashcardIndex exampleState"
      "currentFlashcardIndex exampleState < int (length (currentFlashcards exampleState))"
      "int (length (currentFlashcards exampleState)) = 2"
    by (simp_all add: exampleState_def exampleSteps_def js_index_def)
  have x: "extractFlashcards (details (hd exampleSteps))
           = [\<lparr>cardFront = js ''Term'', cardBack = js ''Definition''\<rparr>,
              \<lparr>cardFront = js ''Key Concept'',
               cardBack = js ''A moderately long descriptive sentence.''\<rparr>]"
    by (simp add: exampleSteps_def extractFlashcards_def pushFlashcard_def js_def js_trim_def
        isWhiteSpace_def COLON_def)
  from flashcard_index_invariant [of exampleState
      "\<lparr>topic = js ''Chemistry'', steps = exampleSteps,
        persona = js ''Teacher'', difficulty = js ''Beginner''\<rparr>"
      "hd exampleSteps" exampleState "exampleState\<lparr>currentFlashcards := []\<rparr>"]
    r i c
  show ?thesis by (simp add: x)
qed

section \<open>The session cursor\<close>

lemma updateLearningScreen_loaded:
  assumes "updateLearningScreen p s = Inr s'" and "loaded s"
  shows "loaded s' \<and> cursorInRange s' = cursorInRange s \<and> roadmapData s' = roadmapData s
         \<and> totalSteps s' = totalSteps s"
proof -
  from assms(2) obtain r where r: "roadmapData s = Some r"
    and t: "totalSteps s = int (length (steps r))" and m: "roadmapMinimap s = map title (steps r)"
    by (auto simp add: loaded_def split: option.splits)
  have k: "kept s' = kept s" using assms(1) by (rule updateLearningScreen_kept)
  have "roadmapMinimap s' = map title (steps r)"
    using assms(1) r m by (rule updateLearningScreen_minimap)
  with k r t show ?thesis by (simp add: kept_def loaded_def cursorInRange_def)
qed

lemma loaded_cursor_update: "loaded (s\<lparr>currentStepIndex := i\<rparr>) = loaded s"
  by (simp add: loaded_def split: option.splits)

lemma loaded_other_updates:
  "loaded (fetch q s) = loaded s" "loaded (alert a s) = loaded s"
  "loaded (showCompletionModal s) = loaded s"
  "cursorInRange (fetch q s) = cursorInRange s" "cursorInRange (alert a s) = cursorInRange s"
  "cursorInRange (showCompletionModal s) = cursorInRange s"
  by (simp_all add: loaded_def cursorInRange_def fetch_def alert_def showCompletionModal_def
      split: option.splits)

lemma cursorInRange_set:
  "loaded s \<Longrightarrow> cursorInRange (s\<lparr>currentStepIndex := i\<rparr>) = (0 \<le> i \<and> i < totalSteps s)"
  by (auto simp add: loaded_def cursorInRange_def split: option.splits)

lemma frame_fields:
  "roadmapData (fetch q s) = roadmapData s" "roadmapData (alert a s) = roadmapData s"
  "roadmapData (showCompletionModal s) = roadmapData s"
  "totalSteps (fetch q s) = totalSteps s" "totalSteps (alert a s) = totalSteps s"
  "totalSteps (showCompletionModal s) = totalSteps s"
  by (simp_all add: fetch_def alert_def showCompletionModal_def)

lemma perform_preserves:
  assumes "loaded s" and "cursorInRange s" and "backendIndexInRange (totalSteps s) op"
  shows "loaded (perform op s) \<and> cursorInRange (perform op s)
         \<and> roadmapData (perform op s) = roadmapData s \<and> totalSteps (perform op s) = totalSteps s"
proof (cases op)
  case (RetreatStep p)
  show ?thesis
  proof (cases "currentStepIndex s = 0")
    case True
    with assms RetreatStep show ?thesis by (simp add: previousStep_def)
  next
    case False
    let ?s1 = "s\<lparr>currentStepIndex := currentStepIndex s - 1\<rparr>"
    have l1: "loaded ?s1" using assms(1) by (simp add: loaded_cursor_update)
    have "0 \<le> currentStepIndex s \<and> currentStepIndex s < totalSteps s"
      using assms(1,2) by (auto simp add: loaded_def cursorInRange_def split: option.splits)
    with False have c1: "cursorInRange ?s1" using assms(1) by (simp add: cursorInRange_set)
    show ?thesis
    proof (cases "updateLearningScreen p ?s1")
      case (Inl e)
      with False l1 c1 RetreatStep show ?thesis by (simp add: previousStep_def)
    next
      case (Inr s2)
      from updateLearningScreen_loaded [OF Inr l1] c1 False Inr RetreatStep
      show ?thesis by (simp add: previousStep_def)
    qed
  qed
next
  case (JumpToStep index p)
  show ?thesis
  proof (cases "index < length (roadmapMinimap s)")
    case False
    with assms JumpToStep show ?thesis by (simp add: jumpToStep_def)
  next
    case True
    let ?s1 = "s\<lparr>currentStepIndex := int index\<rparr>"
    have l1: "loaded ?s1" using assms(1) by (simp add: loaded_cursor_update)
    have "int index < totalSteps s"
      using True assms(1) by (auto simp add: loaded_def split: option.splits)
    then have c1: "cursorInRange ?s1" using assms(1) by (simp add: cursorInRange_set)
    show ?thesis
    proof (cases "updateLearningScreen p ?s1")
      case (Inl e)
      with True l1 c1 JumpToStep show ?thesis by (simp add: jumpToStep_def)
    next
      case (Inr s2)
      from updateLearningScreen_loaded [OF Inr l1] c1 True Inr JumpToStep
      show ?thesis by (simp add: jumpToStep_def)
    qed
  qed
next
  case (AdvanceStep resp p)
  show ?thesis
  proof (cases "currentStepIndex s \<ge> totalSteps s - 1")
    case True
    with assms AdvanceStep show ?thesis
      by (simp add: nextStep_def loaded_other_updates frame_fields)
  next
    case False
    note notlast = False
    let ?s1 = "fetch PostNextStep s"
    have l1: "loaded ?s1" and c1: "cursorInRange ?s1"
      using assms(1,2) by (simp_all add: loaded_other_updates)
    show ?thesis
    proof (cases resp)
      case (Rejected msg)
      with notlast AdvanceStep l1 c1 show ?thesis
        by (simp add: nextStep_def loaded_other_updates frame_fields)
    next
      case (Resolved d)
      show ?thesis
      proof (cases d)
        case NextStepFail
        with Resolved notlast AdvanceStep l1 c1 show ?thesis
          by (simp add: nextStep_def frame_fields)
      next
        case (NextStepOk completed i)
        show ?thesis
        proof (cases completed)
          case True
          with NextStepOk Resolved notlast AdvanceStep l1 c1 show ?thesis
            by (simp add: nextStep_def loaded_other_updates frame_fields)
        next
          case False
          let ?s2 = "?s1\<lparr>currentStepIndex := i\<rparr>"
          have l2: "loaded ?s2" using l1 by (simp add: loaded_cursor_update)
          have "0 \<le> i \<and> i < totalSteps s"
            using assms(3) AdvanceStep Resolved NextStepOk False by simp
          then have c2: "cursorInRange ?s2" using l1 by (simp add: cursorInRange_set frame_fields)
          have r2: "roadmapData ?s2 = roadmapData s" "totalSteps ?s2 = totalSteps s"
            by (simp_all add: fetch_def)
          show ?thesis
          proof (cases "updateLearningScreen p ?s2")
            case (Inl e)
            with False NextStepOk Resolved notlast AdvanceStep l2 c2 r2 show ?thesis
              by (simp add: nextStep_def loaded_other_updates frame_fields)
          next
            case (Inr s3)
            from updateLearningScreen_loaded [OF Inr l2] c2 r2
              False NextStepOk Resolved notlast AdvanceStep Inr
            show ?thesis by (simp add: nextStep_def)
          qed
        qed
      qed
    qed
  qed
qed

lemma run_preserves:
  "loaded s \<Longrightarrow> cursorInRange s \<Longrightarrow> list_all (backendIndexInRange (totalSteps s)) ops \<Longrightarrow>
   loaded (run ops s) \<and> cursorInRange (run ops s)
   \<and> roadmapData (run ops s) = roadmapData s \<and> totalSteps (run ops s) = totalSteps s"
proof (induction ops arbitrary: s)
  case Nil
  then show ?case by simp
next
  case (Cons op ops)
  from Cons.prems have b: "backendIndexInRange (totalSteps s) op"
    and bs: "list_all (backendIndexInRange (totalSteps s)) ops" by simp_all
  from perform_preserves [OF Cons.prems(1,2) b]
  have l: "loaded (perform op s)" and c: "cursorInRange (perform op s)"
    and r: "roadmapData (perform op s) = roadmapData s"
    and t: "totalSteps (perform op s) = totalSteps s" by simp_all
  from Cons.IH [OF l c] bs t r show ?case by simp
qed

lemma startLearning_success:
  assumes "js_trim (topicInput s) \<noteq> []" and "data_steps \<noteq> []"
  shows "\<exists>s2. startLearning (Resolved (StartTopicOk data_topic data_steps)) p s
              = (updateRightSidebar (loadNote (noteResponse p) (loadGuide (guideResponse p) s2)))
                \<lparr>chatMessages := []\<rparr>
            \<and> roadmapData s2 = Some \<lparr>topic = data_topic, steps = data_steps,
                  persona = personaSelect s, difficulty = difficultySelect s\<rparr>
            \<and> totalSteps s2 = int (length data_steps) \<and> currentStepIndex s2 = 0
            \<and> currentQuiz s2 = currentQuiz s \<and> quizContent s2 = quizContent s
            \<and> alerts s2 = alerts s"
proof -
  let ?r = "\<lparr>topic = data_topic, steps = data_steps,
             persona = personaSelect s, difficulty = difficultySelect s\<rparr>"
  let ?s2 = "showScreen LearningScreen
               ((fetch (PostStartTopic (js_trim (topicInput s)) (personaSelect s) (difficultySelect s))
                   (showLoading s))
                \<lparr>roadmapData := Some ?r, totalSteps := int (length data_steps),
                 currentStepIndex := 0\<rparr>)"
  have f: "roadmapData ?s2 = Some ?r" "totalSteps ?s2 = int (length data_steps)"
    "currentStepIndex ?s2 = 0" "currentQuiz ?s2 = currentQuiz s" "quizContent ?s2 = quizContent s"
    "alerts ?s2 = alerts s"
    by (simp_all add: showScreen_def fetch_def showLoading_def)
  have i: "js_index (steps ?r) (currentStepIndex ?s2) = Some (hd data_steps)"
    using assms(2) f(3) by (simp add: js_index_def hd_conv_nth)
  have lt: "currentStepIndex ?s2 < totalSteps ?s2" using assms(2) f by simp
  have "startLearning (Resolved (StartTopicOk data_topic data_steps)) p s
        = (case updateLearningScreen p ?s2 of Inr s3 \<Rightarrow> s3
           | Inl e \<Rightarrow> showScreen StartScreen (alert (js ''Error: '' @ errorMessage e) ?s2))"
    using assms(1) by (simp add: startLearning_def Let_def)
  also have "\<dots> = (updateRightSidebar (loadNote (noteResponse p) (loadGuide (guideResponse p) ?s2)))
                \<lparr>chatMessages := []\<rparr>"
    by (simp add: updateLearningScreen_refresh [OF f(1) lt i])
  finally show ?thesis using f by blast
qed

lemma startLearning_loaded:
  assumes "js_trim (topicInput s) \<noteq> []" and "data_steps \<noteq> []"
  shows "loaded (startLearning (Resolved (StartTopicOk data_topic data_steps)) p s)
         \<and> cursorInRange (startLearning (Resolved (StartTopicOk data_topic data_steps)) p s)"
proof -
  let ?r = "\<lparr>topic = data_topic, steps = data_steps,
             persona = personaSelect s, difficulty = difficultySelect s\<rparr>"
  from startLearning_success [OF assms, of data_topic p] obtain s2 where
    e: "startLearning (Resolved (StartTopicOk data_topic data_steps)) p s
        = (updateRightSidebar (loadNote (noteResponse p) (loadGuide (guideResponse p) s2)))
          \<lparr>chatMessages := []\<rparr>"
    and r: "roadmapData s2 = Some ?r" and t: "totalSteps s2 = int (length data_steps)"
    and c: "currentStepIndex s2 = 0" by blast
  let ?s3 = "loadNote (noteResponse p) (loadGuide (guideResponse p) s2)"
  have k3: "kept ?s3 = kept s2" by (rule kept_after_panels)
  then have r3: "roadmapData ?s3 = Some ?r" using r by (simp add: kept_def)
  have m: "roadmapMinimap (updateRightSidebar ?s3) = map title (steps ?r)"
    using r3 by (rule updateRightSidebar_minimap)
  have "kept (updateRightSidebar ?s3) = kept s2" using k3 by (simp add: updateRightSidebar_kept)
  with r t c have "roadmapData (updateRightSidebar ?s3) = Some ?r"
    "totalSteps (updateRightSidebar ?s3) = int (length data_steps)"
    "currentStepIndex (updateRightSidebar ?s3) = 0"
    by (simp_all add: kept_def)
  with m assms(2) show ?thesis by (simp add: e loaded_def cursorInRange_def)
qed

text \<open>
  Claim C1, as amended. A successful \<open>startLearning\<close> with at least one step loads the
  session with the cursor in range. From a loaded session with the cursor in range, every
  sequence of \<open>previousStep\<close>, \<open>jumpToStep\<close> (on an item of the minimap) and \<open>nextStep\<close>
  keeps the session loaded, the roadmap and \<open>totalSteps\<close> unchanged and the cursor in
  range, provided every index that \<open>nextStep\<close> adopts from the backend lies in
  \<open>[0, totalSteps)\<close>. \<open>nextStep\<close> itself does not check the index.
\<close>

theorem cursor_invariant:
  "(js_trim (topicInput s0) \<noteq> [] \<and> data_steps \<noteq> [] \<longrightarrow>
      loaded (startLearning (Resolved (StartTopicOk data_topic data_steps)) p s0)
      \<and> cursorInRange (startLearning (Resolved (StartTopicOk data_topic data_steps)) p s0))
   \<and> (loaded s \<and> cursorInRange s \<and> list_all (backendIndexInRange (totalSteps s)) ops \<longrightarrow>
        loaded (run ops s) \<and> cursorInRange (run ops s)
        \<and> roadmapData (run ops s) = roadmapData s \<and> totalSteps (run ops s) = totalSteps s)"
  using startLearning_loaded [of s0 data_steps data_topic p] run_preserves [of s ops]
  by blast

text \<open>
  The sample session, with a sequence of four operations whose one adopted index is 2.
\<close>

theorem cursor_invariant_witness:
  "js_trim (topicInput exampleState) \<noteq> [] \<and> exampleSteps \<noteq> []
   \<and> loaded exampleState \<and> cursorInRange exampleState
   \<and> list_all (backendIndexInRange (totalSteps exampleState))
        [AdvanceStep (Resolved (NextStepOk False 2)) examplePanels, RetreatStep examplePanels,
         JumpToStep 0 examplePanels, AdvanceStep (Rejected (js ''Failed to fetch'')) examplePanels]
   \<and> cursorInRange (startLearning (Resolved (StartTopicOk (js ''Chemistry'') exampleSteps))
        examplePanels exampleState)
   \<and> cursorInRange (run
        [AdvanceStep (Resolved (NextStepOk False 2)) examplePanels, RetreatStep examplePanels,
         JumpToStep 0 examplePanels, AdvanceStep (Rejected (js ''Failed to fetch'')) examplePanels]
        exampleState)"
proof -
  have t: "js_trim (topicInput exampleState) \<noteq> []"
    by (simp add: exampleState_def js_trim_def js_def isWhiteSpace_def)
  have e: "exampleSteps \<noteq> []" by (simp add: exampleSteps_def)
  have l: "loaded exampleState"
    by (simp add: loaded_def exampleState_def exampleSteps_def)
  have c: "cursorInRange exampleState"
    by (simp add: cursorInRange_def exampleState_def exampleSteps_def)
  have b: "list_all (backendIndexInRange (totalSteps exampleState))
        [AdvanceStep (Resolved (NextStepOk False 2)) examplePanels, RetreatStep examplePanels,
         JumpToStep 0 examplePanels, AdvanceStep (Rejected (js ''Failed to fetch'')) examplePanels]"
    by (simp add: exampleState_def)
  from t e l c b cursor_invariant [of exampleState exampleSteps "js ''Chemistry''" examplePanels
      exampleState "[AdvanceStep (Resolved (NextStepOk False 2)) examplePanels, RetreatStep examplePanels,
         JumpToStep 0 examplePanels, AdvanceStep (Rejected (js ''Failed to fetch'')) examplePanels]"]
  show ?thesis by blast
qed

text \<open>
  Claim C1 as stated fails: the backend answers \<open>currentStepIndex = 99\<close> in a session of
  three steps, \<open>nextStep\<close> adopts it and the cursor is out of range.
\<close>

theorem cursor_invariant_counterexample:
  "loaded exampleState \<and> cursorInRange exampleState
   \<and> currentStepIndex (run [AdvanceStep (Resolved (NextStepOk False 99)) examplePanels] exampleState) = 99
   \<and> \<not> cursorInRange (run [AdvanceStep (Resolved (NextStepOk False 99)) examplePanels] exampleState)"
  by (simp add: loaded_def cursorInRange_def nextStep_def exampleState_def exampleSteps_def
      fetch_def updateLearningScreen_def)

text \<open>
  Claim C6. With the cursor on the last step of a loaded session, \<open>nextStep\<close> shows the
  completion modal and does nothing else, whatever the backend would answer: no request is
  sent, and the cursor, the roadmap and the rest of the state are as before.
\<close>

theorem nextStep_at_last_step:
  assumes "roadmapData s = Some r"
    and "totalSteps s = int (length (steps r))"
    and "currentStepIndex s = totalSteps s - 1"
  shows "nextStep resp p s = s\<lparr>completionModalHidden := False\<rparr>
         \<and> completionModalHidden (nextStep resp p s) = False
         \<and> requests (nextStep resp p s) = requests s
         \<and> currentStepIndex (nextStep resp p s) = currentStepIndex s
         \<and> roadmapData (nextStep resp p s) = roadmapData s"
  using assms by (simp add: nextStep_def showCompletionModal_def)

text \<open>
  The sample session with the cursor on its third and last step.
\<close>

theorem nextStep_at_last_step_witness:
  "roadmapData (exampleState\<lparr>currentStepIndex := 2\<rparr>) \<noteq> None
   \<and> currentStepIndex (exampleState\<lparr>currentStepIndex := 2\<rparr>)
       = totalSteps (exampleState\<lparr>currentStepIndex := 2\<rparr>) - 1
   \<and> nextStep (Resolved (NextStepOk False 1)) examplePanels (exampleState\<lparr>currentStepIndex := 2\<rparr>)
       = exampleState\<lparr>currentStepIndex := 2, completionModalHidden := False\<rparr>
   \<and> requests (nextStep (Resolved (NextStepOk False 1)) examplePanels
                  (exampleState\<lparr>currentStepIndex := 2\<rparr>)) = []"
  using nextStep_at_last_step [of "exampleState\<lparr>currentStepIndex := 2\<rparr>"
      "\<lparr>topic = js ''Chemistry'', steps = exampleSteps,
        persona = js ''Teacher'', difficulty = js ''Beginner''\<rparr>"
      "Resolved (NextStepOk False 1)" examplePanels]
  by (simp add: exampleState_def exampleSteps_def)

lemma nextStep_adopts:
  assumes "currentStepIndex s < totalSteps s - 1"
  shows "currentStepIndex (nextStep (Resolved (NextStepOk False i)) p s) = i"
proof (cases "updateLearningScreen p ((fetch PostNextStep s)\<lparr>currentStepIndex := i\<rparr>)")
  case (Inl e)
  with assms show ?thesis by (simp add: nextStep_def alert_def)
next
  case (Inr s3)
  from kept_cursor [OF updateLearningScreen_kept [OF Inr]] Inr assms
  show ?thesis by (simp add: nextStep_def)
qed

text \<open>
  Claim C5, as amended. With the cursor before the last step, \<open>nextStep\<close> sets the cursor to
  the index the backend returns when the answer is successful and not \<open>completed\<close>; on a
  successful answer that is \<open>completed\<close> it shows the completion modal and keeps the
  cursor; when the request is rejected (network failure, body that does not parse) it
  alerts the error message and keeps the cursor.
\<close>

theorem nextStep_outcomes:
  assumes "currentStepIndex s < totalSteps s - 1"
  shows "currentStepIndex (nextStep (Resolved (NextStepOk False i)) p s) = i
    \<and> nextStep (Resolved (NextStepOk True i)) p s = showCompletionModal (fetch PostNextStep s)
    \<and> currentStepIndex (nextStep (Resolved (NextStepOk True i)) p s) = currentStepIndex s
    \<and> nextStep (Rejected msg) p s = alert (js ''Error: '' @ msg) (fetch PostNextStep s)
    \<and> currentStepIndex (nextStep (Rejected msg) p s) = currentStepIndex s
    \<and> alerts (nextStep (Rejected msg) p s) = alerts s @ [js ''Error: '' @ msg]"
  using assms nextStep_adopts [OF assms, of i p]
  by (simp add: nextStep_def alert_def fetch_def showCompletionModal_def)

text \<open>
  The sample session: the backend returns index 2 from the first step.
\<close>

theorem nextStep_outcomes_witness:
  "currentStepIndex exampleState < totalSteps exampleState - 1
   \<and> currentStepIndex (nextStep (Resolved (NextStepOk False 2)) examplePanels exampleState) = 2
   \<and> currentStepIndex (nextStep (Resolved (NextStepOk True 2)) examplePanels exampleState) = 0
   \<and> currentStepIndex (nextStep (Rejected (js ''Failed to fetch'')) examplePanels exampleState) = 0
   \<and> alerts (nextStep (Rejected (js ''Failed to fetch'')) examplePanels exampleState)
       = [js ''Error: Failed to fetch'']"
proof -
  have h: "currentStepIndex exampleState < totalSteps exampleState - 1"
    by (simp add: exampleState_def)
  have c: "currentStepIndex exampleState = 0" "alerts exampleState = []"
    by (simp_all add: exampleState_def)
  from nextStep_outcomes [OF h, of 2 examplePanels "js ''Failed to fetch''"] h c
  show ?thesis by (simp add: js_def alert_def fetch_def showCompletionModal_def)
qed

text \<open>
  Claim C5 as stated fails: on a successful answer with \<open>completed\<close> set and index 1, the
  cursor stays at 0.
\<close>

theorem nextStep_outcomes_counterexample:
  "currentStepIndex exampleState < totalSteps exampleState - 1
   \<and> currentStepIndex (nextStep (Resolved (NextStepOk True 1)) examplePanels exampleState) = 0
   \<and> currentStepIndex (nextStep (Resolved (NextStepOk True 1)) examplePanels exampleState) \<noteq> 1"
  by (simp add: nextStep_def exampleState_def showCompletionModal_def fetch_def)

section \<open>The stored quiz\<close>

lemma previousStep_kept_quiz:
  "currentQuiz (previousStep p s) = currentQuiz s \<and> quizContent (previousStep p s) = quizContent s"
proof (cases "updateLearningScreen p (s\<lparr>currentStepIndex := currentStepIndex s - 1\<rparr>)")
  case (Inl e)
  then show ?thesis by (simp add: previousStep_def)
next
  case (Inr s2)
  from kept_quiz [OF updateLearningScreen_kept [OF Inr]] Inr
  show ?thesis by (simp add: previousStep_def)
qed

lemma jumpToStep_kept_quiz:
  "currentQuiz (jumpToStep index p s) = currentQuiz s
   \<and> quizContent (jumpToStep index p s) = quizContent s"
proof (cases "updateLearningScreen p (s\<lparr>currentStepIndex := int index\<rparr>)")
  case (Inl e)
  then show ?thesis by (simp add: jumpToStep_def)
next
  case (Inr s2)
  from kept_quiz [OF updateLearningScreen_kept [OF Inr]] Inr
  show ?thesis by (simp add: jumpToStep_def)
qed

lemma nextStep_kept_quiz:
  "currentQuiz (nextStep resp p s) = currentQuiz s \<and> quizContent (nextStep resp p s) = quizContent s"
proof (cases "currentStepIndex s \<ge> totalSteps s - 1")
  case True
  then show ?thesis by (simp add: nextStep_def showCompletionModal_def)
next
  case nl: False
  show ?thesis
  proof (cases resp)
    case (Rejected msg)
    with nl show ?thesis by (simp add: nextStep_def alert_def fetch_def)
  next
    case (Resolved d)
    show ?thesis
    proof (cases d)
      case NextStepFail
      with Resolved nl show ?thesis by (simp add: nextStep_def fetch_def)
    next
      case (NextStepOk completed i)
      show ?thesis
      proof (cases "updateLearningScreen p ((fetch PostNextStep s)\<lparr>currentStepIndex := i\<rparr>)")
        case (Inl e)
        with NextStepOk Resolved nl show ?thesis
          by (simp add: nextStep_def alert_def fetch_def showCompletionModal_def Let_def)
      next
        case (Inr s3)
        from kept_quiz [OF updateLearningScreen_kept [OF Inr]] Inr NextStepOk Resolved nl
        show ?thesis by (simp add: nextStep_def fetch_def showCompletionModal_def Let_def)
      qed
    qed
  qed
qed

text \<open>
  Claim C3, as amended. No cursor operation invalidates the stored quiz: after
  \<open>previousStep\<close>, \<open>jumpToStep\<close> and \<open>nextStep\<close>, whatever the backend answers, the
  stored question set \<open>currentQuiz\<close> is the one that was stored before the step change.
\<close>

theorem step_change_keeps_quiz:
  "currentQuiz (previousStep p s) = currentQuiz s
   \<and> currentQuiz (jumpToStep index p s) = currentQuiz s
   \<and> currentQuiz (nextStep resp p s) = currentQuiz s"
  by (simp add: previousStep_kept_quiz jumpToStep_kept_quiz nextStep_kept_quiz)

text \<open>
  Claim C3 as stated fails: in the sample session the cursor moves to another step under
  each of the three operations and the stored quiz is still there afterwards.
\<close>

theorem quiz_invalidated_counterexample:
  "currentQuiz exampleState = Some exampleQuiz
   \<and> currentStepIndex exampleState = 0
   \<and> currentStepIndex (jumpToStep 1 examplePanels exampleState) = 1
   \<and> currentQuiz (jumpToStep 1 examplePanels exampleState) = Some exampleQuiz
   \<and> currentStepIndex (nextStep (Resolved (NextStepOk False 1)) examplePanels exampleState) = 1
   \<and> currentQuiz (nextStep (Resolved (NextStepOk False 1)) examplePanels exampleState)
       = Some exampleQuiz
   \<and> currentStepIndex (previousStep examplePanels (exampleState\<lparr>currentStepIndex := 2\<rparr>)) = 1
   \<and> currentQuiz (previousStep examplePanels (exampleState\<lparr>currentStepIndex := 2\<rparr>))
       = Some exampleQuiz"
proof -
  have q: "currentQuiz exampleState = Some exampleQuiz" "currentStepIndex exampleState = 0"
    "totalSteps exampleState = 3" "length (roadmapMinimap exampleState) = 3"
    by (simp_all add: exampleState_def)
  have j: "currentStepIndex (jumpToStep 1 examplePanels exampleState) = 1"
  proof (cases "updateLearningScreen examplePanels (exampleState\<lparr>currentStepIndex := int 1\<rparr>)")
    case (Inl e)
    with q show ?thesis by (simp add: jumpToStep_def)
  next
    case (Inr s2)
    from kept_cursor [OF updateLearningScreen_kept [OF Inr]] Inr q
    show ?thesis by (simp add: jumpToStep_def)
  qed
  have n: "currentStepIndex (nextStep (Resolved (NextStepOk False 1)) examplePanels exampleState) = 1"
    using q by (simp add: nextStep_adopts)
  have p: "currentStepIndex (previousStep examplePanels (exampleState\<lparr>currentStepIndex := 2\<rparr>)) = 1"
  proof (cases "updateLearningScreen examplePanels (exampleState\<lparr>currentStepIndex := 1\<rparr>)")
    case (Inl e)
    then show ?thesis by (simp add: previousStep_def)
  next
    case (Inr s2)
    from kept_cursor [OF updateLearningScreen_kept [OF Inr]] Inr
    show ?thesis by (simp add: previousStep_def)
  qed
  show ?thesis
    using q j n p
    by (simp add: previousStep_kept_quiz jumpToStep_kept_quiz nextStep_kept_quiz)
qed

section \<open>Reset and restart\<close>

lemma resetToStart_fields:
  "roadmapData (resetToStart s) = None" "currentStepIndex (resetToStart s) = 0"
  "chatMessages (resetToStart s) = []" "quizContent (resetToStart s) = None"
  "notesTextarea (resetToStart s) = []"
  "currentFlashcards (resetToStart s) = currentFlashcards s"
  "currentFlashcardIndex (resetToStart s) = currentFlashcardIndex s"
  "currentQuiz (resetToStart s) = currentQuiz s" "totalSteps (resetToStart s) = totalSteps s"
  "personaSelect (resetToStart s) = personaSelect s"
  "difficultySelect (resetToStart s) = difficultySelect s"
  by (simp_all add: resetToStart_def loadStats_def fetch_def showScreen_def)

lemma startLearning_fresh:
  assumes "js_trim (topicInput s) \<noteq> []" and "data_steps \<noteq> []"
  shows "roadmapData (startLearning (Resolved (StartTopicOk data_topic data_steps)) p s)
           = Some \<lparr>topic = data_topic, steps = data_steps,
                   persona = personaSelect s, difficulty = difficultySelect s\<rparr>
    \<and> totalSteps (startLearning (Resolved (StartTopicOk data_topic data_steps)) p s)
           = int (length data_steps)
    \<and> currentStepIndex (startLearning (Resolved (StartTopicOk data_topic data_steps)) p s) = 0
    \<and> currentFlashcards (startLearning (Resolved (StartTopicOk data_topic data_steps)) p s)
           = extractFlashcards (details (hd data_steps))
    \<and> currentFlashcardIndex (startLearning (Resolved (StartTopicOk data_topic data_steps)) p s) = 0
    \<and> chatMessages (startLearning (Resolved (StartTopicOk data_topic data_steps)) p s) = []
    \<and> quizContent (startLearning (Resolved (StartTopicOk data_topic data_steps)) p s)
           = quizContent s
    \<and> currentQuiz (startLearning (Resolved (StartTopicOk data_topic data_steps)) p s)
           = currentQuiz s"
proof -
  let ?r = "\<lparr>topic = data_topic, steps = data_steps,
             persona = personaSelect s, difficulty = difficultySelect s\<rparr>"
  from startLearning_success [OF assms, of data_topic p] obtain s2 where
    e: "startLearning (Resolved (StartTopicOk data_topic data_steps)) p s
        = (updateRightSidebar (loadNote (noteResponse p) (loadGuide (guideResponse p) s2)))
          \<lparr>chatMessages := []\<rparr>"
    and r: "roadmapData s2 = Some ?r" and t: "totalSteps s2 = int (length data_steps)"
    and c: "currentStepIndex s2 = 0"
    and q: "currentQuiz s2 = currentQuiz s" "quizContent s2 = quizContent s" by blast
  let ?s3 = "loadNote (noteResponse p) (loadGuide (guideResponse p) s2)"
  have k3: "kept ?s3 = kept s2" by (rule kept_after_panels)
  then have r3: "roadmapData ?s3 = Some ?r" and c3: "currentStepIndex ?s3 = 0"
    using r c by (simp_all add: kept_def)
  have "js_index (steps ?r) (currentStepIndex ?s3) = Some (hd data_steps)"
    using assms(2) c3 by (simp add: js_index_def hd_conv_nth)
  from updateRightSidebar_cards [OF r3 this]
  have cards: "currentFlashcards (updateRightSidebar ?s3) = extractFlashcards (details (hd data_steps))"
    "currentFlashcardIndex (updateRightSidebar ?s3) = 0" by simp_all
  have "kept (updateRightSidebar ?s3) = kept s2" using k3 by (simp add: updateRightSidebar_kept)
  with r t c q have "roadmapData (updateRightSidebar ?s3) = Some ?r"
    "totalSteps (updateRightSidebar ?s3) = int (length data_steps)"
    "currentStepIndex (updateRightSidebar ?s3) = 0"
    "currentQuiz (updateRightSidebar ?s3) = currentQuiz s"
    "quizContent (updateRightSidebar ?s3) = quizContent s"
    by (simp_all add: kept_def)
  with cards show ?thesis by (simp add: e)
qed

lemma resetToStart_selected: "quizSelected (resetToStart s) = []"
  by (simp add: resetToStart_def loadStats_def fetch_def showScreen_def)

lemma startLearning_started:
  assumes "js_trim (topicInput s) \<noteq> []"
  shows "roadmapData (startLearning (Resolved (StartTopicOk data_topic data_steps)) p s)
           = Some \<lparr>topic = data_topic, steps = data_steps,
                   persona = personaSelect s, difficulty = difficultySelect s\<rparr>
    \<and> totalSteps (startLearning (Resolved (StartTopicOk data_topic data_steps)) p s)
           = int (length data_steps)
    \<and> currentStepIndex (startLearning (Resolved (StartTopicOk data_topic data_steps)) p s) = 0
    \<and> quizContent (startLearning (Resolved (StartTopicOk data_topic data_steps)) p s)
           = quizContent s
    \<and> quizSelected (startLearning (Resolved (StartTopicOk data_topic data_steps)) p s)
           = quizSelected s
    \<and> currentQuiz (startLearning (Resolved (StartTopicOk data_topic data_steps)) p s)
           = currentQuiz s
    \<and> (chatMessages s = [] \<longrightarrow>
         chatMessages (startLearning (Resolved (StartTopicOk data_topic data_steps)) p s) = [])"
proof -
  let ?r = "\<lparr>topic = data_topic, steps = data_steps,
             persona = personaSelect s, difficulty = difficultySelect s\<rparr>"
  let ?s2 = "showScreen LearningScreen
               ((fetch (PostStartTopic (js_trim (topicInput s)) (personaSelect s) (difficultySelect s))
                   (showLoading s))
                \<lparr>roadmapData := Some ?r, totalSteps := int (length data_steps),
                 currentStepIndex := 0\<rparr>)"
  have f: "roadmapData ?s2 = Some ?r" "totalSteps ?s2 = int (length data_steps)"
    "currentStepIndex ?s2 = 0" "currentQuiz ?s2 = currentQuiz s" "quizContent ?s2 = quizContent s"
    "quizSelected ?s2 = quizSelected s" "chatMessages ?s2 = chatMessages s"
    by (simp_all add: showScreen_def fetch_def showLoading_def)
  have e: "startLearning (Resolved (StartTopicOk data_topic data_steps)) p s
        = (case updateLearningScreen p ?s2 of Inr s3 \<Rightarrow> s3
           | Inl e \<Rightarrow> showScreen StartScreen (alert (js ''Error: '' @ errorMessage e) ?s2))"
    using assms by (simp add: startLearning_def Let_def)
  have "\<exists>s3. updateLearningScreen p ?s2 = Inr s3 \<and> (chatMessages s = [] \<longrightarrow> chatMessages s3 = [])"
  proof (cases "data_steps = []")
    case True
    then have "updateLearningScreen p ?s2 = Inr ?s2"
      using f(1-3) by (simp add: updateLearningScreen_def)
    with f(7) show ?thesis by simp
  next
    case False
    have i: "js_index (steps ?r) (currentStepIndex ?s2) = Some (hd data_steps)"
      using False f(3) by (simp add: js_index_def hd_conv_nth)
    have lt: "currentStepIndex ?s2 < totalSteps ?s2" using False f by simp
    show ?thesis by (simp add: updateLearningScreen_refresh [OF f(1) lt i])
  qed
  then obtain s3 where u: "updateLearningScreen p ?s2 = Inr s3"
    and c: "chatMessages s = [] \<longrightarrow> chatMessages s3 = []" by blast
  have k: "kept s3 = kept ?s2" using u by (rule updateLearningScreen_kept)
  have r: "startLearning (Resolved (StartTopicOk data_topic data_steps)) p s = s3"
    by (simp add: e u)
  from k f have "roadmapData s3 = Some ?r" "totalSteps s3 = int (length data_steps)"
    "currentStepIndex s3 = 0" "currentQuiz s3 = currentQuiz s" "quizContent s3 = quizContent s"
    "quizSelected s3 = quizSelected s"
    by (simp_all add: kept_def)
  with c show ?thesis by (simp add: r)
qed

text \<open>
  Claim C4, as amended. \<open>resetToStart\<close> discards the roadmap, sets the cursor to 0 and
  empties the chat display, the quiz display and the notes field; it leaves the stored
  flashcards and the stored quiz questions as they are. A successful start after it gives
  a session with the new roadmap only, its length as \<open>totalSteps\<close>, the cursor at 0, an
  empty chat display and an empty quiz display, and, when the new roadmap has at least one
  step, the flashcards of its first step; the stored quiz questions of the previous
  session are still in \<open>currentQuiz\<close> after the restart.
\<close>

theorem reset_then_start:
  "roadmapData (resetToStart s) = None
   \<and> currentStepIndex (resetToStart s) = 0
   \<and> chatMessages (resetToStart s) = []
   \<and> quizContent (resetToStart s) = None
   \<and> quizSelected (resetToStart s) = []
   \<and> notesTextarea (resetToStart s) = []
   \<and> currentFlashcards (resetToStart s) = currentFlashcards s
   \<and> currentQuiz (resetToStart s) = currentQuiz s
   \<and> (js_trim typed \<noteq> [] \<longrightarrow>
        roadmapData (resetThenStart typed (Resolved (StartTopicOk data_topic data_steps)) p s)
          = Some \<lparr>topic = data_topic, steps = data_steps,
                  persona = personaSelect s, difficulty = difficultySelect s\<rparr>
        \<and> totalSteps (resetThenStart typed (Resolved (StartTopicOk data_topic data_steps)) p s)
          = int (length data_steps)
        \<and> currentStepIndex (resetThenStart typed (Resolved (StartTopicOk data_topic data_steps)) p s)
          = 0
        \<and> chatMessages (resetThenStart typed (Resolved (StartTopicOk data_topic data_steps)) p s)
          = []
        \<and> quizContent (resetThenStart typed (Resolved (StartTopicOk data_topic data_steps)) p s)
          = None
        \<and> quizSelected (resetThenStart typed (Resolved (StartTopicOk data_topic data_steps)) p s)
          = []
        \<and> currentQuiz (resetThenStart typed (Resolved (StartTopicOk data_topic data_steps)) p s)
          = currentQuiz s
        \<and> (data_steps \<noteq> [] \<longrightarrow>
             currentFlashcards
               (resetThenStart typed (Resolved (StartTopicOk data_topic data_steps)) p s)
             = extractFlashcards (details (hd data_steps))))"
proof -
  let ?t = "(resetToStart s)\<lparr>topicInput := typed\<rparr>"
  have t: "js_trim typed \<noteq> [] \<Longrightarrow> js_trim (topicInput ?t) \<noteq> []"
    by simp
  have g: "personaSelect ?t = personaSelect s" "difficultySelect ?t = difficultySelect s"
    "quizContent ?t = None" "quizSelected ?t = []" "currentQuiz ?t = currentQuiz s"
    "chatMessages ?t = []"
    by (simp_all add: resetToStart_fields resetToStart_selected)
  from startLearning_started [OF t, of data_topic data_steps p]
    startLearning_fresh [OF t, of data_steps data_topic p] g
  show ?thesis by (simp add: resetThenStart_def resetToStart_fields resetToStart_selected)
qed

text \<open>
  The sample session, restarted on a one-step roadmap.
\<close>

theorem reset_then_start_witness:
  "js_trim (js ''Physics'') \<noteq> [] \<and> [\<lparr>number = 1, title = js ''Motion'', details = [js ''Speed: distance over time'']\<rparr>] \<noteq> []
   \<and> roadmapData (resetThenStart (js ''Physics'')
        (Resolved (StartTopicOk (js ''Physics'')
           [\<lparr>number = 1, title = js ''Motion'', details = [js ''Speed: distance over time'']\<rparr>]))
        examplePanels exampleState)
      = Some \<lparr>topic = js ''Physics'',
              steps = [\<lparr>number = 1, title = js ''Motion'', details = [js ''Speed: distance over time'']\<rparr>],
              persona = js ''Teacher'', difficulty = js ''Beginner''\<rparr>
   \<and> currentStepIndex (resetThenStart (js ''Physics'')
        (Resolved (StartTopicOk (js ''Physics'')
           [\<lparr>number = 1, title = js ''Motion'', details = [js ''Speed: distance over time'']\<rparr>]))
        examplePanels exampleState) = 0
   \<and> currentFlashcards (resetThenStart (js ''Physics'')
        (Resolved (StartTopicOk (js ''Physics'')
           [\<lparr>number = 1, title = js ''Motion'', details = [js ''Speed: distance over time'']\<rparr>]))
        examplePanels exampleState)
      = [\<lparr>cardFront = js ''Speed'', cardBack = js ''distance over time''\<rparr>]
   \<and> currentQuiz (resetThenStart (js ''Physics'')
        (Resolved (StartTopicOk (js ''Physics'')
           [\<lparr>number = 1, title = js ''Motion'', details = [js ''Speed: distance over time'']\<rparr>]))
        examplePanels exampleState) = Some exampleQuiz"
proof -
  have t: "js_trim (js ''Physics'') \<noteq> []"
    by (simp add: js_trim_def js_def isWhiteSpace_def)
  have x: "extractFlashcards [js ''Speed: distance over time'']
           = [\<lparr>cardFront = js ''Speed'', cardBack = js ''distance over time''\<rparr>]"
    by (simp add: extractFlashcards_def pushFlashcard_def js_def js_trim_def isWhiteSpace_def
        COLON_def)
  have e: "personaSelect exampleState = js ''Teacher''"
    "difficultySelect exampleState = js ''Beginner''" "currentQuiz exampleState = Some exampleQuiz"
    by (simp_all add: exampleState_def)
  from t reset_then_start [of exampleState "js ''Physics''" "js ''Physics''"
      "[\<lparr>number = 1, title = js ''Motion'', details = [js ''Speed: distance over time'']\<rparr>]"
      examplePanels]
  show ?thesis by (simp add: x e)
qed

text \<open>
  Claim C4 as stated fails: after \<open>resetToStart\<close> the sample session still holds its two
  flashcards and its quiz, and the quiz is still held after the restart.
\<close>

theorem reset_then_start_counterexample:
  "currentFlashcards (resetToStart exampleState)
     = [\<lparr>cardFront = js ''Term'', cardBack = js ''Definition''\<rparr>,
        \<lparr>cardFront = js ''Key Concept'', cardBack = js ''A moderately long descriptive sentence.''\<rparr>]
   \<and> currentQuiz (resetToStart exampleState) = Some exampleQuiz
   \<and> currentQuiz (resetThenStart (js ''Physics'')
        (Resolved (StartTopicOk (js ''Physics'')
           [\<lparr>number = 1, title = js ''Motion'', details = [js ''Speed: distance over time'']\<rparr>]))
        examplePanels exampleState) = Some exampleQuiz"
proof -
  have t: "js_trim (topicInput ((resetToStart exampleState)\<lparr>topicInput := js ''Physics''\<rparr>)) \<noteq> []"
    by (simp add: js_trim_def js_def isWhiteSpace_def)
  have e: "currentQuiz exampleState = Some exampleQuiz"
    "currentFlashcards exampleState
     = [\<lparr>cardFront = js ''Term'', cardBack = js ''Definition''\<rparr>,
        \<lparr>cardFront = js ''Key Concept'', cardBack = js ''A moderately long descriptive sentence.''\<rparr>]"
    by (simp_all add: exampleState_def)
  from startLearning_fresh [OF t, of
      "[\<lparr>number = 1, title = js ''Motion'', details = [js ''Speed: distance over time'']\<rparr>]"
      "js ''Physics''" examplePanels]
  show ?thesis by (simp add: resetThenStart_def resetToStart_fields e)
qed

section \<open>Failures reported by the backend\<close>

text \<open>
  Claim C7. When the backend answers \<open>success: false\<close>, \<open>nextStep\<close> and \<open>submitQuiz\<close> show
  no notification, where \<open>startLearning\<close> and \<open>generateQuiz\<close> alert: the \<open>if (data.success)\<close>
  of the first two has no \<open>else\<close> branch.
\<close>

theorem silent_failure_example:
  "currentStepIndex exampleState < totalSteps exampleState - 1
   \<and> alerts (nextStep (Resolved NextStepFail) examplePanels exampleState) = alerts exampleState
   \<and> alerts (submitQuiz (Resolved SubmitQuizFail) exampleState) = alerts exampleState
   \<and> alerts (startLearning (Resolved (StartTopicFail None)) examplePanels exampleState)
       = alerts exampleState @ [js ''Error: Failed to generate roadmap'']
   \<and> alerts (generateQuiz (Resolved (GenerateQuizFail None)) exampleState)
       = alerts exampleState @ [js ''Error generating quiz: Unknown error'']"
  by (simp add: nextStep_def submitQuiz_def startLearning_def generateQuiz_def exampleState_def
      fetch_def alert_def showScreen_def showLoading_def js_or_def js_trim_def js_def
      isWhiteSpace_def Let_def)

section \<open>Chat\<close>

lemma NL_isWhiteSpace: "isWhiteSpace NL"
  by (simp add: isWhiteSpace_def NL_def)

lemma replaceBlankLines_set: "set (replaceBlankLines s) \<subseteq> set s"
proof (induction s rule: replaceBlankLines.induct)
  case 1
  then show ?case by simp
next
  case (2 c cs)
  show ?case
  proof (cases "c = NL \<and> NL \<in> set (takeWhile isWhiteSpace cs)")
    case True
    with 2(1) have "set (replaceBlankLines (drop (blankMatchLength cs) cs)) \<subseteq> set cs"
      using set_drop_subset [of "blankMatchLength cs" cs] by blast
    with True show ?thesis by auto
  next
    case False
    with 2(2) show ?thesis by auto
  qed
qed

lemma replaceBlankLines_no_NL_prefix:
  "NL \<notin> set r \<Longrightarrow> replaceBlankLines (r @ t) = r @ replaceBlankLines t"
  by (induction r) auto

lemma replaceBlankLines_after_space:
  "t = [] \<or> \<not> isWhiteSpace (hd t) \<Longrightarrow> takeWhile isWhiteSpace (replaceBlankLines t) = []"
  by (cases t) (auto simp add: NL_isWhiteSpace)

lemma takeWhile_replaceBlankLines:
  assumes "NL \<notin> set (takeWhile isWhiteSpace s)"
  shows "takeWhile isWhiteSpace (replaceBlankLines s) = takeWhile isWhiteSpace s"
proof -
  let ?r = "takeWhile isWhiteSpace s" and ?t = "dropWhile isWhiteSpace s"
  have "replaceBlankLines (?r @ ?t) = ?r @ replaceBlankLines ?t"
    using assms by (rule replaceBlankLines_no_NL_prefix)
  then have e: "replaceBlankLines s = ?r @ replaceBlankLines ?t" by simp
  have "?t = [] \<or> \<not> isWhiteSpace (hd ?t)"
    using hd_dropWhile [of isWhiteSpace s] by blast
  then have n: "takeWhile isWhiteSpace (replaceBlankLines ?t) = []"
    by (rule replaceBlankLines_after_space)
  have w: "\<And>x. x \<in> set ?r \<Longrightarrow> isWhiteSpace x" by (auto dest: set_takeWhileD)
  have "takeWhile isWhiteSpace (?r @ replaceBlankLines ?t)
        = ?r @ takeWhile isWhiteSpace (replaceBlankLines ?t)"
    using w by (rule takeWhile_append2)
  with e n show ?thesis by simp
qed

lemma rest_of_run:
  "takeWhile isWhiteSpace (drop (blankMatchLength cs) cs)
   = rev (takeWhile (\<lambda>u. u \<noteq> NL) (rev (takeWhile isWhiteSpace cs)))"
proof -
  let ?run = "takeWhile isWhiteSpace cs" and ?t = "dropWhile isWhiteSpace cs"
  let ?k = "blankMatchLength cs"
  have k: "?k = length ?run - length (takeWhile (\<lambda>u. u \<noteq> NL) (rev ?run))"
    by (simp add: blankMatchLength_def Let_def)
  have kle: "?k \<le> length ?run" using k by simp
  have "drop ?k (?run @ ?t) = drop ?k ?run @ drop (?k - length ?run) ?t"
    by (rule drop_append)
  then have d: "drop ?k cs = drop ?k ?run @ ?t" using kle by simp
  have ws: "\<forall>x\<in>set (drop ?k ?run). isWhiteSpace x"
    by (auto dest: in_set_dropD set_takeWhileD)
  have t: "takeWhile isWhiteSpace ?t = []"
    using hd_dropWhile [of isWhiteSpace cs] by (simp only: takeWhile_eq_Nil_iff) blast
  have "takeWhile isWhiteSpace (drop ?k ?run @ ?t) = drop ?k ?run @ takeWhile isWhiteSpace ?t"
    using ws by (simp only: takeWhile_append2)
  then have "takeWhile isWhiteSpace (drop ?k cs) = drop ?k ?run"
    using t d by simp
  also have "drop ?k ?run = rev (take (length ?run - ?k) (rev ?run))"
    using kle by (simp add: rev_take)
  also have "length ?run - ?k = length (takeWhile (\<lambda>u. u \<noteq> NL) (rev ?run))"
    using k length_takeWhile_le [of "\<lambda>u. u \<noteq> NL" "rev ?run"] by simp
  also have "take (length (takeWhile (\<lambda>u. u \<noteq> NL) (rev ?run))) (rev ?run)
             = takeWhile (\<lambda>u. u \<noteq> NL) (rev ?run)"
    by (metis takeWhile_eq_take)
  finally show ?thesis .
qed

lemma rest_of_run_no_NL: "NL \<notin> set (takeWhile isWhiteSpace (drop (blankMatchLength cs) cs))"
  by (auto simp add: rest_of_run dest: set_takeWhileD)

lemma replaceBlankLines_no_blank: "\<not> hasBlankLine (replaceBlankLines s)"
proof (induction s rule: replaceBlankLines.induct)
  case 1
  then show ?case by simp
next
  case (2 c cs)
  show ?case
  proof (cases "c = NL \<and> NL \<in> set (takeWhile isWhiteSpace cs)")
    case True
    let ?d = "drop (blankMatchLength cs) cs"
    have "NL \<notin> set (takeWhile isWhiteSpace (replaceBlankLines ?d))"
      using rest_of_run_no_NL [of cs] by (simp add: takeWhile_replaceBlankLines)
    with True 2(1) show ?thesis by simp
  next
    case False
    have "c = NL \<Longrightarrow> NL \<notin> set (takeWhile isWhiteSpace (replaceBlankLines cs))"
      using False by (simp add: takeWhile_replaceBlankLines)
    with False 2(2) show ?thesis by auto
  qed
qed

lemma hasBlankLine_suffix: "hasBlankLine (drop n s) \<Longrightarrow> hasBlankLine s"
proof (induction s arbitrary: n)
  case Nil
  then show ?case by simp
next
  case (Cons c cs)
  then show ?case by (cases n) auto
qed

lemma takeWhile_take_subset: "set (takeWhile P (take n xs)) \<subseteq> set (takeWhile P xs)"
proof (induction xs arbitrary: n)
  case Nil
  then show ?case by simp
next
  case (Cons x xs)
  then show ?case by (cases n) auto
qed

lemma rev_dropWhile_rev: "\<exists>n. rev (dropWhile P (rev xs)) = take n xs"
proof -
  have "rev (dropWhile P (rev xs)) = rev (drop (length (takeWhile P (rev xs))) (rev xs))"
    by (simp only: dropWhile_eq_drop [symmetric])
  also have "\<dots> = take (length xs - length (takeWhile P (rev xs))) xs"
    by (simp add: rev_drop)
  finally show ?thesis by blast
qed

lemma hasBlankLine_prefix: "hasBlankLine (take n s) \<Longrightarrow> hasBlankLine s"
proof (induction s arbitrary: n)
  case Nil
  then show ?case by simp
next
  case (Cons c cs)
  show ?case
  proof (cases n)
    case 0
    with Cons.prems show ?thesis by simp
  next
    case (Suc m)
    have "set (takeWhile isWhiteSpace (take m cs)) \<subseteq> set (takeWhile isWhiteSpace cs)"
      by (rule takeWhile_take_subset)
    with Cons Suc show ?thesis by auto
  qed
qed

lemma js_trim_no_blank:
  assumes "\<not> hasBlankLine s"
  shows "\<not> hasBlankLine (js_trim s)"
proof -
  let ?d = "dropWhile isWhiteSpace s"
  have "?d = drop (length (takeWhile isWhiteSpace s)) s"
    by (rule dropWhile_eq_drop)
  with assms have b: "\<not> hasBlankLine ?d"
    using hasBlankLine_suffix by metis
  obtain n where "rev (dropWhile isWhiteSpace (rev ?d)) = take n ?d"
    using rev_dropWhile_rev by blast
  with b show ?thesis unfolding js_trim_def using hasBlankLine_prefix by metis
qed

lemma js_trim_set: "set (js_trim s) \<subseteq> set s"
  by (auto simp add: js_trim_def dest!: set_dropWhileD)

lemma cleanedMessage_no_markdown: "STAR \<notin> set (cleanedMessage m) \<and> HASH \<notin> set (cleanedMessage m)"
proof -
  have "set (cleanedMessage m) \<subseteq> set (filter (\<lambda>u. u \<noteq> STAR \<and> u \<noteq> HASH) m)"
    unfolding cleanedMessage_def using js_trim_set replaceBlankLines_set by blast
  then show ?thesis by auto
qed

lemma cleanedMessage_no_blank: "\<not> hasBlankLine (cleanedMessage m)"
  by (simp add: cleanedMessage_def js_trim_no_blank replaceBlankLines_no_blank)

lemma cleaned_example:
  "cleanedMessage (js ''**Key** #point\<newline>\<newline>\<newline>more'') = js ''Key point\<newline>more''"
  by (simp add: cleanedMessage_def js_def js_trim_def isWhiteSpace_def STAR_def HASH_def NL_def
      blankMatchLength_def)

lemma cleaned_fallback:
  "cleanedMessage (js ''Sorry, I encountered an error. Please try again.'')
   = js ''Sorry, I encountered an error. Please try again.''"
  by (simp add: cleanedMessage_def js_def js_trim_def isWhiteSpace_def STAR_def HASH_def NL_def
      blankMatchLength_def)

lemma sendChat_nonempty:
  assumes "js_trim (chatInput s) \<noteq> []"
  shows "sendChatRequest s
         = Some (js_trim (chatInput s),
                 fetch (PostChat (js_trim (chatInput s)))
                   ((addChatMessage User (js_trim (chatInput s)) s)\<lparr>chatInput := []\<rparr>))"
  using assms by (simp add: sendChatRequest_def Let_def)

lemma sendChat_requests:
  assumes "js_trim (chatInput s) \<noteq> []"
  shows "requests (sendChat resp s) = requests s @ [PostChat (js_trim (chatInput s))]"
  by (simp add: sendChat_def sendChat_nonempty [OF assms] addChatMessage_def fetch_def
      split: outcome.splits chat_json.splits)

lemma sendChat_empty: "js_trim (chatInput s) = [] \<Longrightarrow> sendChat resp s = s"
  by (simp add: sendChat_def sendChatRequest_def)

text \<open>
  Claim C8, as amended. The text \<open>addChatMessage\<close> displays is the message with every
  \<^verbatim>\<open>*\<close> and \<^verbatim>\<open>#\<close> removed, then every match of \<^verbatim>\<open>/\n\s*\n/\<close> replaced by one line
  feed, then trimmed of leading and trailing white space. It has no \<^verbatim>\<open>*\<close>, no \<^verbatim>\<open>#\<close>
  and no blank line, and the specification's example renders as stated. The message
  \<open>sendChat\<close> sends to the backend is the typed input, trimmed and otherwise unchanged;
  when the trimmed input is empty nothing is sent or displayed.
\<close>

theorem chat_display_cleaning:
  "chatMessages (addChatMessage r m s)
     = chatMessages s
       @ [(r, js_trim (replaceBlankLines (filter (\<lambda>u. u \<noteq> STAR \<and> u \<noteq> HASH) m)))]
   \<and> STAR \<notin> set (cleanedMessage m) \<and> HASH \<notin> set (cleanedMessage m)
   \<and> \<not> hasBlankLine (cleanedMessage m)
   \<and> cleanedMessage (js ''**Key** #point\<newline>\<newline>\<newline>more'') = js ''Key point\<newline>more''
   \<and> (js_trim (chatInput s) \<noteq> [] \<longrightarrow>
        requests (sendChat resp s) = requests s @ [PostChat (js_trim (chatInput s))])
   \<and> (js_trim (chatInput t) = [] \<longrightarrow> sendChat resp t = t)"
  using cleanedMessage_no_markdown [of m] cleanedMessage_no_blank [of m] cleaned_example
    sendChat_requests [of s resp] sendChat_empty [of t resp]
  by (simp add: addChatMessage_def cleanedMessage_def)

text \<open>
  The sample session with its typed question, and with an input of spaces only.
\<close>

theorem chat_display_cleaning_witness:
  "js_trim (chatInput exampleState) \<noteq> []
   \<and> js_trim (chatInput (exampleState\<lparr>chatInput := js ''   ''\<rparr>)) = []
   \<and> chatMessages (addChatMessage Assistant (js ''# Title'') exampleState)
       = [(User, js ''Hi''), (Assistant, js ''Title'')]
   \<and> requests (sendChat (Resolved (ChatOk (js ''# Title''))) exampleState)
       = [PostChat (js ''What is a mole?'')]
   \<and> sendChat (Resolved (ChatOk (js ''# Title''))) (exampleState\<lparr>chatInput := js ''   ''\<rparr>)
       = exampleState\<lparr>chatInput := js ''   ''\<rparr>"
proof -
  have a: "js_trim (chatInput exampleState) = js ''What is a mole?''"
    by (simp add: exampleState_def js_trim_def js_def isWhiteSpace_def)
  have b: "js_trim (js ''   '') = []"
    by (simp add: js_trim_def js_def isWhiteSpace_def)
  have c: "js_trim (replaceBlankLines (filter (\<lambda>u. u \<noteq> STAR \<and> u \<noteq> HASH) (js ''# Title'')))
           = js ''Title''"
    by (simp add: js_def js_trim_def isWhiteSpace_def STAR_def HASH_def NL_def)
  have d: "chatMessages exampleState = [(User, js ''Hi'')]" "requests exampleState = []"
    by (simp_all add: exampleState_def)
  have n: "js ''What is a mole?'' \<noteq> []" by (simp add: js_def)
  from chat_display_cleaning [of Assistant "js ''# Title''" exampleState
      "Resolved (ChatOk (js ''# Title''))" "exampleState\<lparr>chatInput := js ''   ''\<rparr>"]
  show ?thesis by (simp add: a b c d n)
qed

text \<open>
  Claim C8 as stated fails: \<^verbatim>\<open>"# Title"\<close> is displayed as \<^verbatim>\<open>"Title"\<close>, which is not the
  input with \<^verbatim>\<open>#\<close> removed and blank lines collapsed (that keeps the leading space), and
  the message sent for the input \<^verbatim>\<open>"  What is a mole?  "\<close> is not that input.
\<close>

theorem chat_display_cleaning_counterexample:
  "cleanedMessage (js ''# Title'') = js ''Title''
   \<and> replaceBlankLines (filter (\<lambda>u. u \<noteq> STAR \<and> u \<noteq> HASH) (js ''# Title'')) = js '' Title''
   \<and> cleanedMessage (js ''# Title'')
       \<noteq> replaceBlankLines (filter (\<lambda>u. u \<noteq> STAR \<and> u \<noteq> HASH) (js ''# Title''))
   \<and> chatInput exampleState = js ''  What is a mole?  ''
   \<and> requests (sendChat (Resolved ChatFail) exampleState) = [PostChat (js ''What is a mole?'')]
   \<and> js ''What is a mole?'' \<noteq> chatInput exampleState"
proof -
  have a: "js_trim (chatInput exampleState) = js ''What is a mole?''"
    by (simp add: exampleState_def js_trim_def js_def isWhiteSpace_def)
  then have n: "js_trim (chatInput exampleState) \<noteq> []" by (simp add: js_def)
  have r: "requests exampleState = []" "chatInput exampleState = js ''  What is a mole?  ''"
    by (simp_all add: exampleState_def)
  have a': "js_trim (js ''  What is a mole?  '') = js ''What is a mole?''"
    using a by (simp add: r)
  have c: "cleanedMessage (js ''# Title'') = js ''Title''"
    "replaceBlankLines (filter (\<lambda>u. u \<noteq> STAR \<and> u \<noteq> HASH) (js ''# Title'')) = js '' Title''"
    by (simp_all add: cleanedMessage_def js_def js_trim_def isWhiteSpace_def STAR_def HASH_def
        NL_def)
  have d: "js ''Title'' \<noteq> js '' Title''" "js ''What is a mole?'' \<noteq> js ''  What is a mole?  ''"
    by (simp_all add: js_def)
  show ?thesis using sendChat_requests [OF n, of "Resolved ChatFail"]
    by (simp add: a' r c d)
qed

text \<open>
  Claim C9, as amended. With a non-empty trimmed input, the user's message is in the
  transcript and the request is logged when \<open>sendChat\<close> reaches its \<^verbatim>\<open>await\<close>. Then the
  assistant's reply is appended on a successful answer, the fixed text
  \<^verbatim>\<open>Sorry, I encountered an error. Please try again.\<close> when the backend reports a failure,
  and \<^verbatim>\<open>Error: \<close> followed by the error's message when the request is rejected. Every
  appended text is cleaned as in \<open>addChatMessage\<close>.
\<close>

theorem chat_transcript_replies:
  assumes "js_trim (chatInput s) \<noteq> []"
  shows "map_option (chatMessages \<circ> snd) (sendChatRequest s)
           = Some (chatMessages s @ [(User, cleanedMessage (js_trim (chatInput s)))])
    \<and> map_option (requests \<circ> snd) (sendChatRequest s)
           = Some (requests s @ [PostChat (js_trim (chatInput s))])
    \<and> chatMessages (sendChat (Resolved (ChatOk data_response)) s)
           = chatMessages s @ [(User, cleanedMessage (js_trim (chatInput s))),
                               (Assistant, cleanedMessage data_response)]
    \<and> chatMessages (sendChat (Resolved ChatFail) s)
           = chatMessages s @ [(User, cleanedMessage (js_trim (chatInput s))),
                               (Assistant, js ''Sorry, I encountered an error. Please try again.'')]
    \<and> chatMessages (sendChat (Rejected msg) s)
           = chatMessages s @ [(User, cleanedMessage (js_trim (chatInput s))),
                               (Assistant, cleanedMessage (js ''Error: '' @ msg))]"
  by (simp add: sendChat_def sendChat_nonempty [OF assms] addChatMessage_def fetch_def
      cleaned_fallback)

text \<open>
  The sample session with the three kinds of answer.
\<close>

theorem chat_transcript_replies_witness:
  "js_trim (chatInput exampleState) \<noteq> []
   \<and> chatMessages (sendChat (Resolved (ChatOk (js ''**Avogadro**''))) exampleState)
       = [(User, js ''Hi''), (User, js ''What is a mole?''), (Assistant, js ''Avogadro'')]
   \<and> chatMessages (sendChat (Resolved ChatFail) exampleState)
       = [(User, js ''Hi''), (User, js ''What is a mole?''),
          (Assistant, js ''Sorry, I encountered an error. Please try again.'')]
   \<and> chatMessages (sendChat (Rejected (js ''Failed to fetch'')) exampleState)
       = [(User, js ''Hi''), (User, js ''What is a mole?''),
          (Assistant, js ''Error: Failed to fetch'')]"
proof -
  have a: "js_trim (chatInput exampleState) = js ''What is a mole?''"
    by (simp add: exampleState_def js_trim_def js_def isWhiteSpace_def)
  then have n: "js_trim (chatInput exampleState) \<noteq> []" by (simp add: js_def)
  have c: "cleanedMessage (js ''What is a mole?'') = js ''What is a mole?''"
    "cleanedMessage (js ''**Avogadro**'') = js ''Avogadro''"
    "cleanedMessage (js ''Error: '' @ js ''Failed to fetch'') = js ''Error: Failed to fetch''"
    by (simp_all add: cleanedMessage_def js_def js_trim_def isWhiteSpace_def STAR_def HASH_def
        NL_def)
  have d: "chatMessages exampleState = [(User, js ''Hi'')]" by (simp add: exampleState_def)
  from chat_transcript_replies [OF n, of "js ''**Avogadro**''" "js ''Failed to fetch''"] n
  show ?thesis by (simp add: a c d)
qed

text \<open>
  Claim C9 as stated fails: a rejected request appends \<^verbatim>\<open>Error: Failed to fetch\<close>, not the
  fixed text appended for a failure the backend reports.
\<close>

theorem chat_transcript_replies_counterexample:
  "chatMessages (sendChat (Resolved ChatFail) exampleState)
       = [(User, js ''Hi''), (User, js ''What is a mole?''),
          (Assistant, js ''Sorry, I encountered an error. Please try again.'')]
   \<and> chatMessages (sendChat (Rejected (js ''Failed to fetch'')) exampleState)
       = [(User, js ''Hi''), (User, js ''What is a mole?''),
          (Assistant, js ''Error: Failed to fetch'')]
   \<and> chatMessages (sendChat (Rejected (js ''Failed to fetch'')) exampleState)
       \<noteq> chatMessages (sendChat (Resolved ChatFail) exampleState)"
proof -
  have a: "js_trim (chatInput exampleState) = js ''What is a mole?''"
    by (simp add: exampleState_def js_trim_def js_def isWhiteSpace_def)
  then have n: "js_trim (chatInput exampleState) \<noteq> []" by (simp add: js_def)
  have c: "cleanedMessage (js ''What is a mole?'') = js ''What is a mole?''"
    "cleanedMessage (js ''Error: '' @ js ''Failed to fetch'') = js ''Error: Failed to fetch''"
    by (simp_all add: cleanedMessage_def js_def js_trim_def isWhiteSpace_def STAR_def HASH_def
        NL_def)
  have d: "chatMessages exampleState = [(User, js ''Hi'')]" by (simp add: exampleState_def)
  have e: "js ''Error: Failed to fetch'' \<noteq> js ''Sorry, I encountered an error. Please try again.''"
    by (simp add: js_def)
  show ?thesis
    by (simp add: sendChat_def sendChat_nonempty [OF n] addChatMessage_def fetch_def
        cleaned_fallback a c d e)
qed

end
